theory Spec2Isabelle
  imports Complex_Main "HOL-Library.Monad_Syntax"
begin

section \<open>Deterministic mating-system models (Ehlers and Bataillon 2007, models 1 and 2)\<close>

text \<open>
  The two programs \<^verbatim>\<open>deterministic_model1.c\<close> (six genotypes, called Model A below) and
  \<^verbatim>\<open>deterministic_model2.c\<close> (nine genotypes, Model B) iterate a genotype-frequency
  recurrence inside \<^verbatim>\<open>main\<close>. The embedding follows the sections of the loop body in the
  order of the source: pollen sums, pollen normalisation, egg sums with pollen
  limitation, outcrossing, selfing, YY penalty, normalisation of the plant frequencies.

  The C variables are \<^verbatim>\<open>float\<close>s. They are modelled as exact reals, so every statement
  below is about exact arithmetic; rounding is outside this model. A C division whose
  divisor is zero yields an infinity or a NaN, which no real number represents: each
  division of the source is therefore a checked division that has no result (\<open>None\<close>)
  when its divisor is not admissible.
\<close>

subsection \<open>Parameters and checked division\<close>

text \<open>The global parameters of both programs, with the defaults of the source.\<close>

record params =
  h :: real
  S :: real
  d :: real
  V :: real
  Q :: real
  F :: real
  PSatF :: real
  ppY :: real

definition default_params :: params where
  "default_params = \<lparr>h = 0.5, S = 0, d = 0, V = 1, Q = 1, F = 1, PSatF = 0, ppY = 1\<rparr>"

text \<open>
  A division check says which divisors are admissible. \<open>nonzero\<close> is the arithmetic of the
  program (a quotient exists unless the divisor is zero); \<open>positive\<close> is the stricter
  reading under which a run succeeds only if every divisor it meets is strictly positive.
\<close>

type_synonym divcheck = "real \<Rightarrow> bool"

definition nonzero :: divcheck where
  "nonzero b = (b \<noteq> 0)"

definition positive :: divcheck where
  "positive b = (0 < b)"

definition cdiv :: "divcheck \<Rightarrow> real \<Rightarrow> real \<Rightarrow> real option" where
  "cdiv ok a b = (if ok b then Some (a / b) else None)"

text \<open>
  The pattern of every egg contribution:
  \<^verbatim>\<open>if (totalpollen >= PSat) e += x; else e += x * totalpollen / PSat;\<close>
  (C parses the quotient as \<^verbatim>\<open>(x * totalpollen) / PSat\<close>).
\<close>

definition limited :: "divcheck \<Rightarrow> real \<Rightarrow> real \<Rightarrow> real \<Rightarrow> real option" where
  "limited ok x totalpollen PSat =
     (if totalpollen \<ge> PSat then Some x else cdiv ok (x * totalpollen) PSat)"

text \<open>Pollen saturation point for cosex receivers: \<^verbatim>\<open>PSatC = PSatF * F * (1 - S)\<close>.\<close>

definition PSatC :: "params \<Rightarrow> real" where
  "PSatC p = PSatF p * F p * (1 - S p)"

text \<open>The factor shared by every selfing term: \<^verbatim>\<open>S * (1 - d) * h * F\<close>.\<close>

definition selfmass :: "params \<Rightarrow> real \<Rightarrow> real" where
  "selfmass p x = x * S p * (1 - d p) * h p * F p"

subsection \<open>Model A: six genotypes\<close>

record freqs1 =
  f_AA :: real
  f_Aa :: real
  f_Aas :: real
  f_aa :: real
  f_aas :: real
  f_asas :: real

definition zero1 :: freqs1 where
  "zero1 = \<lparr>f_AA = 0, f_Aa = 0, f_Aas = 0, f_aa = 0, f_aas = 0, f_asas = 0\<rparr>"

text \<open>\<^verbatim>\<open>totalplants = f_AA + f_Aa + f_Aas + f_aa + f_aas + f_asas\<close>\<close>

definition total1 :: "freqs1 \<Rightarrow> real" where
  "total1 f = f_AA f + f_Aa f + f_Aas f + f_aa f + f_aas f + f_asas f"

definition nonneg1 :: "freqs1 \<Rightarrow> bool" where
  "nonneg1 f = (0 \<le> f_AA f \<and> 0 \<le> f_Aa f \<and> 0 \<le> f_Aas f \<and> 0 \<le> f_aa f \<and> 0 \<le> f_aas f \<and> 0 \<le> f_asas f)"

text \<open>
  Pollen sums (\<open>p_A\<close>, \<open>p_a\<close>, \<open>p_as\<close>) after the Y pollen penalty and before
  normalisation. Each sum lists the \<^verbatim>\<open>+=\<close> statements of the source in their order.
\<close>

definition pollen_raw1 :: "params \<Rightarrow> freqs1 \<Rightarrow> real \<times> real \<times> real" where
  "pollen_raw1 p f =
     (let p_A = 0 + f_Aa f * 0.5 + f_Aas f * 0.5 * h p * Q p + f_Aas f * 0.5 * (1 - h p);
          p_a = 0 + f_Aa f * 0.5 + f_aa f + f_aas f * 0.5 * h p * Q p + f_aas f * 0.5 * (1 - h p);
          p_as = 0 + f_Aas f * 0.5 * h p * Q p + f_Aas f * 0.5 * (1 - h p)
                   + f_aas f * 0.5 * h p * Q p + f_aas f * 0.5 * (1 - h p)
                   + f_asas f * h p * Q p + f_asas f * (1 - h p)
      in (p_A, p_a * ppY p, p_as * ppY p))"

definition sum3 :: "real \<times> real \<times> real \<Rightarrow> real" where
  "sum3 t = (case t of (a, b, c) \<Rightarrow> a + b + c)"

definition nonneg3 :: "real \<times> real \<times> real \<Rightarrow> bool" where
  "nonneg3 t = (case t of (a, b, c) \<Rightarrow> 0 \<le> a \<and> 0 \<le> b \<and> 0 \<le> c)"

text \<open>\<^verbatim>\<open>totalpollen = p_A + p_a + p_as\<close>\<close>

definition totalpollen1 :: "params \<Rightarrow> freqs1 \<Rightarrow> real" where
  "totalpollen1 p f = sum3 (pollen_raw1 p f)"

text \<open>The pollen pool: normalised if \<^verbatim>\<open>totalpollen > 0\<close>, left as it is otherwise.\<close>

definition pollen1 :: "divcheck \<Rightarrow> params \<Rightarrow> freqs1 \<Rightarrow> (real \<times> real \<times> real) option" where
  "pollen1 ok p f =
     (case pollen_raw1 p f of (p_A, p_a, p_as) \<Rightarrow>
        let totalpollen = p_A + p_a + p_as in
        if totalpollen > 0 then
          do {
            p_A \<leftarrow> cdiv ok p_A totalpollen;
            p_a \<leftarrow> cdiv ok p_a totalpollen;
            p_as \<leftarrow> cdiv ok p_as totalpollen;
            Some (p_A, p_a, p_as)
          }
        else Some (p_A, p_a, p_as))"

text \<open>
  The egg sums (\<open>e_A\<close>, \<open>e_a\<close>, \<open>e_as\<close>), not normalised. \<open>g1\<close>, \<open>g3\<close>, \<open>g5\<close>, \<open>g6\<close> are the
  contributions of genotypes 1 (AA), 3 (Aa*), 5 (aa*) and 6 (a*a*); the source computes
  the contribution of genotype 3 once for \<open>e_A\<close> and once more, by the same expression,
  for \<open>e_as\<close> (likewise genotype 5).
\<close>

definition eggs1 :: "divcheck \<Rightarrow> params \<Rightarrow> freqs1 \<Rightarrow> (real \<times> real \<times> real) option" where
  "eggs1 ok p f =
     (let totalpollen = totalpollen1 p f in
      do {
        g1 \<leftarrow> limited ok (f_AA f) totalpollen (PSatF p);
        g3 \<leftarrow> limited ok (f_Aas f * h p * 0.5 * (1 - S p) * F p) totalpollen (PSatC p);
        g5 \<leftarrow> limited ok (f_aas f * h p * 0.5 * (1 - S p) * F p) totalpollen (PSatC p);
        g6 \<leftarrow> limited ok (f_asas f * h p * (1 - S p) * F p) totalpollen (PSatC p);
        Some (0 + g1 + g3, 0 + g5, 0 + g3 + g5 + g6)
      })"

text \<open>Plant frequencies from outcrossing.\<close>

definition outcross1 :: "real \<times> real \<times> real \<Rightarrow> real \<times> real \<times> real \<Rightarrow> freqs1" where
  "outcross1 pol egg =
     (case pol of (p_A, p_a, p_as) \<Rightarrow> case egg of (e_A, e_a, e_as) \<Rightarrow>
        \<lparr>f_AA = p_A * e_A,
         f_Aa = p_A * e_a + p_a * e_A,
         f_Aas = p_A * e_as + p_as * e_A,
         f_aa = p_a * e_a,
         f_aas = p_a * e_as + p_as * e_a,
         f_asas = p_as * e_as\<rparr>)"

text \<open>Adding increments to the running \<^verbatim>\<open>next_f_...\<close> variables, component by component.\<close>

definition add1 :: "freqs1 \<Rightarrow> freqs1 \<Rightarrow> freqs1" where
  "add1 a b =
     \<lparr>f_AA = f_AA a + f_AA b, f_Aa = f_Aa a + f_Aa b, f_Aas = f_Aas a + f_Aas b,
      f_aa = f_aa a + f_aa b, f_aas = f_aas a + f_aas b, f_asas = f_asas a + f_asas b\<rparr>"

text \<open>
  Additional plants from selfing. The source has one block of \<^verbatim>\<open>+=\<close> statements per
  selfing genotype; each block is the vector of its increments (0 where the block does
  not touch a variable). \<open>x\<close> is the frequency of the parent genotype. Only the Aa*
  block divides, by \<^verbatim>\<open>1 + ppY\<close>.
\<close>

definition self_Aas :: "divcheck \<Rightarrow> params \<Rightarrow> real \<Rightarrow> freqs1 option" where
  "self_Aas ok p x =
     do {
       cX \<leftarrow> cdiv ok 0.5 (1 + ppY p);
       cY \<leftarrow> cdiv ok (0.5 * ppY p) (1 + ppY p);
       Some \<lparr>f_AA = x * cX * S p * (1 - d p) * h p * F p,
             f_Aa = 0,
             f_Aas = x * 0.5 * S p * (1 - d p) * h p * F p,
             f_aa = 0,
             f_aas = 0,
             f_asas = x * cY * S p * (1 - d p) * h p * F p\<rparr>
     }"

definition self_aas :: "params \<Rightarrow> real \<Rightarrow> freqs1" where
  "self_aas p x =
     \<lparr>f_AA = 0,
      f_Aa = 0,
      f_Aas = 0,
      f_aa = x * 0.25 * S p * (1 - d p) * h p * F p,
      f_aas = x * 0.5 * S p * (1 - d p) * h p * F p,
      f_asas = x * 0.25 * S p * (1 - d p) * h p * F p\<rparr>"

definition self_asas :: "params \<Rightarrow> real \<Rightarrow> freqs1" where
  "self_asas p x =
     \<lparr>f_AA = 0, f_Aa = 0, f_Aas = 0, f_aa = 0, f_aas = 0,
      f_asas = x * S p * (1 - d p) * h p * F p\<rparr>"

definition selfing1 :: "divcheck \<Rightarrow> params \<Rightarrow> freqs1 \<Rightarrow> freqs1 \<Rightarrow> freqs1 option" where
  "selfing1 ok p f nxt =
     do {
       c3 \<leftarrow> self_Aas ok p (f_Aas f);
       Some (add1 (add1 (add1 nxt c3) (self_aas p (f_aas f))) (self_asas p (f_asas f)))
     }"

text \<open>The YY penalty on aa, aa* and a*a*.\<close>

definition yy_penalty1 :: "params \<Rightarrow> freqs1 \<Rightarrow> freqs1" where
  "yy_penalty1 p nxt =
     nxt\<lparr>f_aa := f_aa nxt * V p, f_aas := f_aas nxt * V p, f_asas := f_asas nxt * V p\<rparr>"

text \<open>Normalisation of the plant frequencies, skipped unless \<^verbatim>\<open>totalplants > 0\<close>.\<close>

definition normalise1 :: "divcheck \<Rightarrow> freqs1 \<Rightarrow> freqs1 option" where
  "normalise1 ok f =
     (let totalplants = total1 f in
      if totalplants > 0 then
        do {
          x1 \<leftarrow> cdiv ok (f_AA f) totalplants;
          x2 \<leftarrow> cdiv ok (f_Aa f) totalplants;
          x3 \<leftarrow> cdiv ok (f_Aas f) totalplants;
          x4 \<leftarrow> cdiv ok (f_aa f) totalplants;
          x5 \<leftarrow> cdiv ok (f_aas f) totalplants;
          x6 \<leftarrow> cdiv ok (f_asas f) totalplants;
          Some \<lparr>f_AA = x1, f_Aa = x2, f_Aas = x3, f_aa = x4, f_aas = x5, f_asas = x6\<rparr>
        }
      else Some f)"

text \<open>The plant frequencies before the final normalisation.\<close>

definition prenorm1 :: "divcheck \<Rightarrow> params \<Rightarrow> freqs1 \<Rightarrow> freqs1 option" where
  "prenorm1 ok p f =
     do {
       pol \<leftarrow> pollen1 ok p f;
       egg \<leftarrow> eggs1 ok p f;
       nxt \<leftarrow> selfing1 ok p f (outcross1 pol egg);
       Some (yy_penalty1 p nxt)
     }"

text \<open>One pass of the loop body.\<close>

definition Generation_Step1 :: "divcheck \<Rightarrow> params \<Rightarrow> freqs1 \<Rightarrow> freqs1 option" where
  "Generation_Step1 ok p f = do { nxt \<leftarrow> prenorm1 ok p f; normalise1 ok nxt }"

text \<open>Start frequencies: dioecy with an inconstant seed, or (\<^verbatim>\<open>--pgd\<close>) pseudo-gynodioecy
  with a male seed.\<close>

definition start1 :: "bool \<Rightarrow> freqs1" where
  "start1 pgd =
     (if \<not> pgd
      then \<lparr>f_AA = 0.499, f_Aa = 0.499, f_Aas = 0.002, f_aa = 0, f_aas = 0, f_asas = 0\<rparr>
      else \<lparr>f_AA = 0.499, f_Aa = 0.002, f_Aas = 0.499, f_aa = 0, f_aas = 0, f_asas = 0\<rparr>)"

text \<open>\<^verbatim>\<open>female = f_AA; male = f_Aa + f_aa; inconstant = f_Aas + f_aas + f_asas;\<close>\<close>

definition female1 :: "freqs1 \<Rightarrow> real" where
  "female1 f = f_AA f"

definition male1 :: "freqs1 \<Rightarrow> real" where
  "male1 f = f_Aa f + f_aa f"

definition inconstant1 :: "freqs1 \<Rightarrow> real" where
  "inconstant1 f = f_Aas f + f_aas f + f_asas f"

subsection \<open>Model B: nine genotypes\<close>

record freqs2 =
  f_AA_MM :: real
  f_AA_Mm :: real
  f_AA_mm :: real
  f_Aa_MM :: real
  f_Aa_Mm :: real
  f_Aa_mm :: real
  f_aa_MM :: real
  f_aa_Mm :: real
  f_aa_mm :: real

definition zero2 :: freqs2 where
  "zero2 = \<lparr>f_AA_MM = 0, f_AA_Mm = 0, f_AA_mm = 0, f_Aa_MM = 0, f_Aa_Mm = 0, f_Aa_mm = 0,
            f_aa_MM = 0, f_aa_Mm = 0, f_aa_mm = 0\<rparr>"

definition total2 :: "freqs2 \<Rightarrow> real" where
  "total2 f = f_AA_MM f + f_AA_Mm f + f_AA_mm f + f_Aa_MM f + f_Aa_Mm f + f_Aa_mm f
                + f_aa_MM f + f_aa_Mm f + f_aa_mm f"

definition nonneg2 :: "freqs2 \<Rightarrow> bool" where
  "nonneg2 f = (0 \<le> f_AA_MM f \<and> 0 \<le> f_AA_Mm f \<and> 0 \<le> f_AA_mm f \<and> 0 \<le> f_Aa_MM f \<and> 0 \<le> f_Aa_Mm f
                 \<and> 0 \<le> f_Aa_mm f \<and> 0 \<le> f_aa_MM f \<and> 0 \<le> f_aa_Mm f \<and> 0 \<le> f_aa_mm f)"

text \<open>Pollen sums (\<open>p_A_M\<close>, \<open>p_A_m\<close>, \<open>p_a_M\<close>, \<open>p_a_m\<close>) before normalisation; Model B has no
  Y pollen penalty.\<close>

definition pollen_raw2 :: "params \<Rightarrow> freqs2 \<Rightarrow> real \<times> real \<times> real \<times> real" where
  "pollen_raw2 p f =
     (let p_A_M = 0 + f_Aa_MM f * 0.5 * h p * Q p + f_Aa_MM f * 0.5 * (1 - h p)
                    + f_Aa_Mm f * 0.25 * h p * Q p + f_Aa_Mm f * 0.25 * (1 - h p);
          p_A_m = 0 + f_Aa_Mm f * 0.25 * h p * Q p + f_Aa_Mm f * 0.25 * (1 - h p)
                    + f_Aa_mm f * 0.5;
          p_a_M = 0 + f_Aa_MM f * 0.5 * h p * Q p + f_Aa_MM f * 0.5 * (1 - h p)
                    + f_Aa_Mm f * 0.25 * h p * Q p + f_Aa_Mm f * 0.25 * (1 - h p)
                    + f_aa_MM f * h p * Q p + f_aa_MM f * (1 - h p)
                    + f_aa_Mm f * 0.5 * h p * Q p + f_aa_Mm f * 0.5 * (1 - h p);
          p_a_m = 0 + f_Aa_Mm f * 0.25 * h p * Q p + f_Aa_Mm f * 0.25 * (1 - h p)
                    + f_Aa_mm f * 0.5
                    + f_aa_Mm f * 0.5 * h p * Q p + f_aa_Mm f * 0.5 * (1 - h p)
                    + f_aa_mm f
      in (p_A_M, p_A_m, p_a_M, p_a_m))"

definition sum4 :: "real \<times> real \<times> real \<times> real \<Rightarrow> real" where
  "sum4 t = (case t of (a, b, c, e) \<Rightarrow> a + b + c + e)"

definition nonneg4 :: "real \<times> real \<times> real \<times> real \<Rightarrow> bool" where
  "nonneg4 t = (case t of (a, b, c, e) \<Rightarrow> 0 \<le> a \<and> 0 \<le> b \<and> 0 \<le> c \<and> 0 \<le> e)"

text \<open>\<^verbatim>\<open>totalpollen = p_A_M + p_A_m + p_a_M + p_a_m\<close>\<close>

definition totalpollen2 :: "params \<Rightarrow> freqs2 \<Rightarrow> real" where
  "totalpollen2 p f = sum4 (pollen_raw2 p f)"

definition pollen2 :: "divcheck \<Rightarrow> params \<Rightarrow> freqs2 \<Rightarrow> (real \<times> real \<times> real \<times> real) option" where
  "pollen2 ok p f =
     (case pollen_raw2 p f of (p_A_M, p_A_m, p_a_M, p_a_m) \<Rightarrow>
        let totalpollen = p_A_M + p_A_m + p_a_M + p_a_m in
        if totalpollen > 0 then
          do {
            p_A_M \<leftarrow> cdiv ok p_A_M totalpollen;
            p_A_m \<leftarrow> cdiv ok p_A_m totalpollen;
            p_a_M \<leftarrow> cdiv ok p_a_M totalpollen;
            p_a_m \<leftarrow> cdiv ok p_a_m totalpollen;
            Some (p_A_M, p_A_m, p_a_M, p_a_m)
          }
        else Some (p_A_M, p_A_m, p_a_M, p_a_m))"

text \<open>
  The egg sums (\<open>e_A_M\<close>, \<open>e_A_m\<close>, \<open>e_a_M\<close>, \<open>e_a_m\<close>), not normalised; \<open>g1\<close> ... \<open>g8\<close> are
  the contributions of genotypes 1 to 5, 7 and 8, each computed by the same expression for
  every sum it is added to.
\<close>

definition eggs2 :: "divcheck \<Rightarrow> params \<Rightarrow> freqs2 \<Rightarrow> (real \<times> real \<times> real \<times> real) option" where
  "eggs2 ok p f =
     (let totalpollen = totalpollen2 p f in
      do {
        g1 \<leftarrow> limited ok (f_AA_MM f) totalpollen (PSatF p);
        g2 \<leftarrow> limited ok (f_AA_Mm f * 0.5) totalpollen (PSatF p);
        g3 \<leftarrow> limited ok (f_AA_mm f) totalpollen (PSatF p);
        g4 \<leftarrow> limited ok (f_Aa_MM f * h p * 0.5 * (1 - S p) * F p) totalpollen (PSatC p);
        g5 \<leftarrow> limited ok (f_Aa_Mm f * h p * 0.25 * (1 - S p) * F p) totalpollen (PSatC p);
        g7 \<leftarrow> limited ok (f_aa_MM f * h p * (1 - S p) * F p) totalpollen (PSatC p);
        g8 \<leftarrow> limited ok (f_aa_Mm f * h p * 0.5 * (1 - S p) * F p) totalpollen (PSatC p);
        Some (0 + g1 + g2 + g4 + g5,
              0 + g2 + g3 + g5,
              0 + g4 + g5 + g7 + g8,
              0 + g5 + g8)
      })"

definition outcross2 :: "real \<times> real \<times> real \<times> real \<Rightarrow> real \<times> real \<times> real \<times> real \<Rightarrow> freqs2" where
  "outcross2 pol egg =
     (case pol of (p_A_M, p_A_m, p_a_M, p_a_m) \<Rightarrow> case egg of (e_A_M, e_A_m, e_a_M, e_a_m) \<Rightarrow>
        \<lparr>f_AA_MM = p_A_M * e_A_M,
         f_AA_Mm = p_A_M * e_A_m + p_A_m * e_A_M,
         f_AA_mm = p_A_m * e_A_m,
         f_Aa_MM = p_A_M * e_a_M + p_a_M * e_A_M,
         f_Aa_Mm = p_A_M * e_a_m + p_A_m * e_a_M + p_a_M * e_A_m + p_a_m * e_A_M,
         f_Aa_mm = p_A_m * e_a_m + p_a_m * e_A_m,
         f_aa_MM = p_a_M * e_a_M,
         f_aa_Mm = p_a_M * e_a_m + p_a_m * e_a_M,
         f_aa_mm = p_a_m * e_a_m\<rparr>)"

definition add2 :: "freqs2 \<Rightarrow> freqs2 \<Rightarrow> freqs2" where
  "add2 a b =
     \<lparr>f_AA_MM = f_AA_MM a + f_AA_MM b, f_AA_Mm = f_AA_Mm a + f_AA_Mm b,
      f_AA_mm = f_AA_mm a + f_AA_mm b, f_Aa_MM = f_Aa_MM a + f_Aa_MM b,
      f_Aa_Mm = f_Aa_Mm a + f_Aa_Mm b, f_Aa_mm = f_Aa_mm a + f_Aa_mm b,
      f_aa_MM = f_aa_MM a + f_aa_MM b, f_aa_Mm = f_aa_Mm a + f_aa_Mm b,
      f_aa_mm = f_aa_mm a + f_aa_mm b\<rparr>"

text \<open>The selfing blocks of genotypes 4 (Aa MM), 5 (Aa Mm), 7 (aa MM) and 8 (aa Mm); none
  divides.\<close>

definition self_Aa_MM :: "params \<Rightarrow> real \<Rightarrow> freqs2" where
  "self_Aa_MM p x =
     \<lparr>f_AA_MM = x * 0.25 * S p * (1 - d p) * h p * F p,
      f_AA_Mm = 0,
      f_AA_mm = 0,
      f_Aa_MM = x * 0.5 * S p * (1 - d p) * h p * F p,
      f_Aa_Mm = 0,
      f_Aa_mm = 0,
      f_aa_MM = x * 0.25 * S p * (1 - d p) * h p * F p,
      f_aa_Mm = 0,
      f_aa_mm = 0\<rparr>"

definition self_Aa_Mm :: "params \<Rightarrow> real \<Rightarrow> freqs2" where
  "self_Aa_Mm p x =
     \<lparr>f_AA_MM = x * 0.0625 * S p * (1 - d p) * h p * F p,
      f_AA_Mm = x * 0.125 * S p * (1 - d p) * h p * F p,
      f_AA_mm = x * 0.0625 * S p * (1 - d p) * h p * F p,
      f_Aa_MM = x * 0.125 * S p * (1 - d p) * h p * F p,
      f_Aa_Mm = x * 0.25 * S p * (1 - d p) * h p * F p,
      f_Aa_mm = x * 0.125 * S p * (1 - d p) * h p * F p,
      f_aa_MM = x * 0.0625 * S p * (1 - d p) * h p * F p,
      f_aa_Mm = x * 0.125 * S p * (1 - d p) * h p * F p,
      f_aa_mm = x * 0.0625 * S p * (1 - d p) * h p * F p\<rparr>"

definition self_aa_MM :: "params \<Rightarrow> real \<Rightarrow> freqs2" where
  "self_aa_MM p x =
     \<lparr>f_AA_MM = 0, f_AA_Mm = 0, f_AA_mm = 0, f_Aa_MM = 0, f_Aa_Mm = 0, f_Aa_mm = 0,
      f_aa_MM = x * S p * (1 - d p) * h p * F p,
      f_aa_Mm = 0,
      f_aa_mm = 0\<rparr>"

definition self_aa_Mm :: "params \<Rightarrow> real \<Rightarrow> freqs2" where
  "self_aa_Mm p x =
     \<lparr>f_AA_MM = 0, f_AA_Mm = 0, f_AA_mm = 0, f_Aa_MM = 0, f_Aa_Mm = 0, f_Aa_mm = 0,
      f_aa_MM = x * 0.25 * S p * (1 - d p) * h p * F p,
      f_aa_Mm = x * 0.5 * S p * (1 - d p) * h p * F p,
      f_aa_mm = x * 0.25 * S p * (1 - d p) * h p * F p\<rparr>"

definition selfing2 :: "params \<Rightarrow> freqs2 \<Rightarrow> freqs2 \<Rightarrow> freqs2" where
  "selfing2 p f nxt =
     add2 (add2 (add2 (add2 nxt (self_Aa_MM p (f_Aa_MM f))) (self_Aa_Mm p (f_Aa_Mm f)))
                (self_aa_MM p (f_aa_MM f)))
          (self_aa_Mm p (f_aa_Mm f))"

definition yy_penalty2 :: "params \<Rightarrow> freqs2 \<Rightarrow> freqs2" where
  "yy_penalty2 p nxt =
     nxt\<lparr>f_aa_MM := f_aa_MM nxt * V p, f_aa_Mm := f_aa_Mm nxt * V p, f_aa_mm := f_aa_mm nxt * V p\<rparr>"

definition normalise2 :: "divcheck \<Rightarrow> freqs2 \<Rightarrow> freqs2 option" where
  "normalise2 ok f =
     (let totalplants = total2 f in
      if totalplants > 0 then
        do {
          x1 \<leftarrow> cdiv ok (f_AA_MM f) totalplants;
          x2 \<leftarrow> cdiv ok (f_AA_Mm f) totalplants;
          x3 \<leftarrow> cdiv ok (f_AA_mm f) totalplants;
          x4 \<leftarrow> cdiv ok (f_Aa_MM f) totalplants;
          x5 \<leftarrow> cdiv ok (f_Aa_Mm f) totalplants;
          x6 \<leftarrow> cdiv ok (f_Aa_mm f) totalplants;
          x7 \<leftarrow> cdiv ok (f_aa_MM f) totalplants;
          x8 \<leftarrow> cdiv ok (f_aa_Mm f) totalplants;
          x9 \<leftarrow> cdiv ok (f_aa_mm f) totalplants;
          Some \<lparr>f_AA_MM = x1, f_AA_Mm = x2, f_AA_mm = x3, f_Aa_MM = x4, f_Aa_Mm = x5,
                f_Aa_mm = x6, f_aa_MM = x7, f_aa_Mm = x8, f_aa_mm = x9\<rparr>
        }
      else Some f)"

definition prenorm2 :: "divcheck \<Rightarrow> params \<Rightarrow> freqs2 \<Rightarrow> freqs2 option" where
  "prenorm2 ok p f =
     do {
       pol \<leftarrow> pollen2 ok p f;
       egg \<leftarrow> eggs2 ok p f;
       Some (yy_penalty2 p (selfing2 p f (outcross2 pol egg)))
     }"

definition Generation_Step2 :: "divcheck \<Rightarrow> params \<Rightarrow> freqs2 \<Rightarrow> freqs2 option" where
  "Generation_Step2 ok p f = do { nxt \<leftarrow> prenorm2 ok p f; normalise2 ok nxt }"

definition start2 :: "bool \<Rightarrow> freqs2" where
  "start2 pgd =
     (if \<not> pgd
      then \<lparr>f_AA_MM = 0, f_AA_Mm = 0, f_AA_mm = 0.499, f_Aa_MM = 0, f_Aa_Mm = 0.002,
            f_Aa_mm = 0.499, f_aa_MM = 0, f_aa_Mm = 0, f_aa_mm = 0\<rparr>
      else \<lparr>f_AA_MM = 0.499, f_AA_Mm = 0, f_AA_mm = 0, f_Aa_MM = 0.499, f_Aa_Mm = 0,
            f_Aa_mm = 0.002, f_aa_MM = 0, f_aa_Mm = 0, f_aa_mm = 0\<rparr>)"

text \<open>\<^verbatim>\<open>female = f_AA_MM + f_AA_Mm + f_AA_mm; male = f_Aa_mm + f_aa_mm;
  inconstant = f_Aa_MM + f_Aa_Mm + f_aa_MM + f_aa_Mm;\<close>\<close>

definition female2 :: "freqs2 \<Rightarrow> real" where
  "female2 f = f_AA_MM f + f_AA_Mm f + f_AA_mm f"

definition male2 :: "freqs2 \<Rightarrow> real" where
  "male2 f = f_Aa_mm f + f_aa_mm f"

definition inconstant2 :: "freqs2 \<Rightarrow> real" where
  "inconstant2 f = f_Aa_MM f + f_Aa_Mm f + f_aa_MM f + f_aa_Mm f"

subsection \<open>The simulation loop\<close>

text \<open>
  \<^verbatim>\<open>for (n = 0; n < endpoint; n++) { ... }\<close>, the same in both programs: the loop body is
  applied until the counter reaches \<open>endpoint\<close>; there is no other exit. A body without a
  result leaves the run without one.
\<close>

function iterate :: "('a \<Rightarrow> 'a option) \<Rightarrow> int \<Rightarrow> int \<Rightarrow> 'a \<Rightarrow> 'a option" where
  "iterate body endpoint n f =
     (if n < endpoint
      then (case body f of None \<Rightarrow> None | Some f' \<Rightarrow> iterate body endpoint (n + 1) f')
      else Some f)"
  by pat_completeness auto
termination
  by (relation "measure (\<lambda>(body, endpoint, n, f). nat (endpoint - n))") auto

declare iterate.simps [simp del]

definition simulate1 :: "divcheck \<Rightarrow> params \<Rightarrow> bool \<Rightarrow> int \<Rightarrow> freqs1 option" where
  "simulate1 ok p pgd endpoint = iterate (Generation_Step1 ok p) endpoint 0 (start1 pgd)"

definition simulate2 :: "divcheck \<Rightarrow> params \<Rightarrow> bool \<Rightarrow> int \<Rightarrow> freqs2 option" where
  "simulate2 ok p pgd endpoint = iterate (Generation_Step2 ok p) endpoint 0 (start2 pgd)"

subsection \<open>The classifier\<close>

text \<open>The categories written into \<^verbatim>\<open>result[x][y]\<close>: the five \<^verbatim>\<open>#define\<close>d codes and 0.\<close>

datatype category = Undetermined | PGD | SSD | DIO | PAD | INC

fun category_code :: "category \<Rightarrow> int" where
  "category_code Undetermined = 0"
| "category_code PGD = 1"
| "category_code SSD = 2"
| "category_code DIO = 3"
| "category_code PAD = 4"
| "category_code INC = 5"

definition classify :: "real \<Rightarrow> real \<Rightarrow> real \<Rightarrow> real \<Rightarrow> category" where
  "classify threshold female male inconstant =
     (if male > threshold \<and> female > threshold \<and> inconstant > threshold then SSD
      else if male > threshold \<and> female > threshold then DIO
      else if female > threshold \<and> inconstant > threshold then PGD
      else if male > threshold \<and> inconstant > threshold then PAD
      else if inconstant > threshold then INC
      else Undetermined)"

definition classify1 :: "real \<Rightarrow> freqs1 \<Rightarrow> category" where
  "classify1 threshold f = classify threshold (female1 f) (male1 f) (inconstant1 f)"

definition classify2 :: "real \<Rightarrow> freqs2 \<Rightarrow> category" where
  "classify2 threshold f = classify threshold (female2 f) (male2 f) (inconstant2 f)"

text \<open>One grid cell (or the single run of \<^verbatim>\<open>--onerun\<close>): simulate, then classify.\<close>

definition cell1 :: "divcheck \<Rightarrow> params \<Rightarrow> bool \<Rightarrow> int \<Rightarrow> real \<Rightarrow> category option" where
  "cell1 ok p pgd endpoint threshold = map_option (classify1 threshold) (simulate1 ok p pgd endpoint)"

definition cell2 :: "divcheck \<Rightarrow> params \<Rightarrow> bool \<Rightarrow> int \<Rightarrow> real \<Rightarrow> category option" where
  "cell2 ok p pgd endpoint threshold = map_option (classify2 threshold) (simulate2 ok p pgd endpoint)"

text \<open>
  The priority list in the words of the specification: the cases in their order, each a
  conjunction of strict comparisons, and the first case that holds decides.
\<close>

definition priority_cases :: "real \<Rightarrow> real \<Rightarrow> real \<Rightarrow> real \<Rightarrow> (bool \<times> category) list" where
  "priority_cases threshold female male inconstant =
     [(female > threshold \<and> male > threshold \<and> inconstant > threshold, SSD),
      (female > threshold \<and> male > threshold, DIO),
      (female > threshold \<and> inconstant > threshold, PGD),
      (male > threshold \<and> inconstant > threshold, PAD),
      (inconstant > threshold, INC)]"

fun first_match :: "(bool \<times> category) list \<Rightarrow> category" where
  "first_match [] = Undetermined"
| "first_match ((c, k) # rest) = (if c then k else first_match rest)"

subsection \<open>The K, k parameterisation\<close>

text \<open>
  \<^verbatim>\<open>Q = 1 / (1 + K)\<close> in the sweep (and for \<^verbatim>\<open>-K\<close>, \<^verbatim>\<open>-k\<close> on the command line);
  \<^verbatim>\<open>(1 / Q) - 1\<close> where the settings are printed; the same two expressions with
  \<^verbatim>\<open>F\<close> and \<^verbatim>\<open>k\<close>.
\<close>

definition Q_of_K :: "divcheck \<Rightarrow> real \<Rightarrow> real option" where
  "Q_of_K ok K = cdiv ok 1 (1 + K)"

definition F_of_k :: "divcheck \<Rightarrow> real \<Rightarrow> real option" where
  "F_of_k ok k = cdiv ok 1 (1 + k)"

definition K_of_Q :: "divcheck \<Rightarrow> real \<Rightarrow> real option" where
  "K_of_Q ok Q' = do { r \<leftarrow> cdiv ok 1 Q'; Some (r - 1) }"

definition k_of_F :: "divcheck \<Rightarrow> real \<Rightarrow> real option" where
  "k_of_F ok F' = do { r \<leftarrow> cdiv ok 1 F'; Some (r - 1) }"

subsection \<open>Ranges of the inputs\<close>

text \<open>
  The ranges under which the frequencies stay frequencies: h, S, d and V between 0 and 1,
  the other parameters not negative.
\<close>

definition param_ranges :: "params \<Rightarrow> bool" where
  "param_ranges p =
     (0 \<le> h p \<and> h p \<le> 1 \<and> 0 \<le> S p \<and> S p \<le> 1 \<and> 0 \<le> d p \<and> d p \<le> 1 \<and> 0 \<le> V p \<and> V p \<le> 1
      \<and> 0 \<le> Q p \<and> 0 \<le> F p \<and> 0 \<le> PSatF p \<and> 0 \<le> ppY p)"

text \<open>
  The pollen output of an inconstant relative to a male: \<open>h * Q\<close> as a cosex plus \<open>1 - h\<close>
  as a male, the two weights of every inconstant block of the pollen sums.
\<close>

definition pollen_output :: "params \<Rightarrow> real" where
  "pollen_output p = h p * Q p + (1 - h p)"

text \<open>A population is entirely female if every genotype other than the AA ones is absent.\<close>

definition all_female1 :: "freqs1 \<Rightarrow> bool" where
  "all_female1 f = (f_Aa f = 0 \<and> f_Aas f = 0 \<and> f_aa f = 0 \<and> f_aas f = 0 \<and> f_asas f = 0)"

definition all_female2 :: "freqs2 \<Rightarrow> bool" where
  "all_female2 f = (f_Aa_MM f = 0 \<and> f_Aa_Mm f = 0 \<and> f_Aa_mm f = 0
                    \<and> f_aa_MM f = 0 \<and> f_aa_Mm f = 0 \<and> f_aa_mm f = 0)"

text \<open>A division check is lenient if it admits every strictly positive divisor.\<close>

definition lenient :: "divcheck \<Rightarrow> bool" where
  "lenient ok = (\<forall>b. 0 < b \<longrightarrow> ok b)"

text \<open>The three aggregates of a frequency vector, as the classifier receives them.\<close>

definition aggregates1 :: "freqs1 \<Rightarrow> real \<times> real \<times> real" where
  "aggregates1 f = (female1 f, male1 f, inconstant1 f)"

definition aggregates2 :: "freqs2 \<Rightarrow> real \<times> real \<times> real" where
  "aggregates2 f = (female2 f, male2 f, inconstant2 f)"

subsection \<open>The loop on the variables of the program\<close>

text \<open>
  The functions above compute each generation from the frequencies alone. The C program
  instead updates the \<^verbatim>\<open>float\<close> variables of \<^verbatim>\<open>main\<close> in place, one assignment after the
  other, and most of these variables are declared without an initial value and keep
  their contents from one grid cell to the next. Here every assignment of the simulation
  is an update of a record that holds all of these variables: the frequencies
  \<^verbatim>\<open>f_...\<close>, \<^verbatim>\<open>next_f_...\<close>, the pollen and egg sums, \<^verbatim>\<open>PSatC\<close>, \<^verbatim>\<open>totalpollen\<close>,
  \<^verbatim>\<open>totalplants\<close>, \<^verbatim>\<open>female\<close>, \<^verbatim>\<open>male\<close> and \<^verbatim>\<open>inconstant\<close> (the last six carry the
  suffix \<open>_v1\<close> or \<open>_v2\<close>). \<^verbatim>\<open>K\<close> and \<^verbatim>\<open>k\<close>, which only serve to set \<^verbatim>\<open>Q\<close> and \<^verbatim>\<open>F\<close>
  before a cell starts, and the integer counters are left out. No statement of the
  simulation assigns to a parameter, so the parameters stay an argument.
\<close>

record vars1 = freqs1 +
  next_f_AA :: real
  next_f_Aa :: real
  next_f_Aas :: real
  next_f_aa :: real
  next_f_aas :: real
  next_f_asas :: real
  p_A :: real
  p_a :: real
  p_as :: real
  e_A :: real
  e_a :: real
  e_as :: real
  PSatC_v1 :: real
  totalpollen_v1 :: real
  totalplants_v1 :: real
  female_v1 :: real
  male_v1 :: real
  inconstant_v1 :: real

definition start_stmts1 :: "bool \<Rightarrow> vars1 \<Rightarrow> vars1" where
  "start_stmts1 pgd s =
     (if \<not> pgd then
        (let s = s\<lparr>f_AA := 0.499\<rparr>;
             s = s\<lparr>f_Aa := 0.499\<rparr>;
             s = s\<lparr>f_Aas := 0.002\<rparr>;
             s = s\<lparr>f_aa := 0\<rparr>;
             s = s\<lparr>f_aas := 0\<rparr>;
             s = s\<lparr>f_asas := 0\<rparr>
         in s)
      else
        (let s = s\<lparr>f_AA := 0.499\<rparr>;
             s = s\<lparr>f_Aa := 0.002\<rparr>;
             s = s\<lparr>f_Aas := 0.499\<rparr>;
             s = s\<lparr>f_aa := 0\<rparr>;
             s = s\<lparr>f_aas := 0\<rparr>;
             s = s\<lparr>f_asas := 0\<rparr>
         in s))"

definition pollen_sums_stmts1 :: "params \<Rightarrow> vars1 \<Rightarrow> vars1" where
  "pollen_sums_stmts1 p s =
     (let s = s\<lparr>p_A := 0\<rparr>;
          s = s\<lparr>p_a := 0\<rparr>;
          s = s\<lparr>p_as := 0\<rparr>;
          s = s\<lparr>p_A := p_A s + f_Aa s * 0.5\<rparr>;
          s = s\<lparr>p_a := p_a s + f_Aa s * 0.5\<rparr>;
          s = s\<lparr>p_A := p_A s + f_Aas s * 0.5 * h p * Q p\<rparr>;
          s = s\<lparr>p_as := p_as s + f_Aas s * 0.5 * h p * Q p\<rparr>;
          s = s\<lparr>p_A := p_A s + f_Aas s * 0.5 * (1 - h p)\<rparr>;
          s = s\<lparr>p_as := p_as s + f_Aas s * 0.5 * (1 - h p)\<rparr>;
          s = s\<lparr>p_a := p_a s + f_aa s\<rparr>;
          s = s\<lparr>p_a := p_a s + f_aas s * 0.5 * h p * Q p\<rparr>;
          s = s\<lparr>p_as := p_as s + f_aas s * 0.5 * h p * Q p\<rparr>;
          s = s\<lparr>p_a := p_a s + f_aas s * 0.5 * (1 - h p)\<rparr>;
          s = s\<lparr>p_as := p_as s + f_aas s * 0.5 * (1 - h p)\<rparr>;
          s = s\<lparr>p_as := p_as s + f_asas s * h p * Q p\<rparr>;
          s = s\<lparr>p_as := p_as s + f_asas s * (1 - h p)\<rparr>;
          s = s\<lparr>p_a := p_a s * ppY p\<rparr>;
          s = s\<lparr>p_as := p_as s * ppY p\<rparr>
      in s)"

definition pollen_norm_stmts1 :: "divcheck \<Rightarrow> vars1 \<Rightarrow> vars1 option" where
  "pollen_norm_stmts1 ok s =
     (let s = s\<lparr>totalpollen_v1 := p_A s + p_a s + p_as s\<rparr> in
      if totalpollen_v1 s > 0 then
        do {
          q \<leftarrow> cdiv ok (p_A s) (totalpollen_v1 s);
          let s = s\<lparr>p_A := q\<rparr>;
          q \<leftarrow> cdiv ok (p_a s) (totalpollen_v1 s);
          let s = s\<lparr>p_a := q\<rparr>;
          q \<leftarrow> cdiv ok (p_as s) (totalpollen_v1 s);
          let s = s\<lparr>p_as := q\<rparr>;
          Some s
        }
      else Some s)"

definition egg_stmts1 :: "divcheck \<Rightarrow> params \<Rightarrow> vars1 \<Rightarrow> vars1 option" where
  "egg_stmts1 ok p s =
     do {
       let s = s\<lparr>PSatC_v1 := PSatF p * F p * (1 - S p)\<rparr>;
       let s = s\<lparr>e_A := 0\<rparr>;
       let s = s\<lparr>e_a := 0\<rparr>;
       let s = s\<lparr>e_as := 0\<rparr>;
       s \<leftarrow> (if totalpollen_v1 s \<ge> PSatF p then
              Some (s\<lparr>e_A := e_A s + f_AA s\<rparr>)
            else do {
              q \<leftarrow> cdiv ok (f_AA s * totalpollen_v1 s) (PSatF p);
              Some (s\<lparr>e_A := e_A s + q\<rparr>)
            });
       s \<leftarrow> (if totalpollen_v1 s \<ge> PSatC_v1 s then do {
              let s = s\<lparr>e_A := e_A s + f_Aas s * h p * 0.5 * (1 - S p) * F p\<rparr>;
              let s = s\<lparr>e_as := e_as s + f_Aas s * h p * 0.5 * (1 - S p) * F p\<rparr>;
              Some s
            } else do {
              q \<leftarrow> cdiv ok (f_Aas s * h p * 0.5 * (1 - S p) * F p * totalpollen_v1 s) (PSatC_v1 s);
              let s = s\<lparr>e_A := e_A s + q\<rparr>;
              q \<leftarrow> cdiv ok (f_Aas s * h p * 0.5 * (1 - S p) * F p * totalpollen_v1 s) (PSatC_v1 s);
              let s = s\<lparr>e_as := e_as s + q\<rparr>;
              Some s
            });
       s \<leftarrow> (if totalpollen_v1 s \<ge> PSatC_v1 s then do {
              let s = s\<lparr>e_a := e_a s + f_aas s * h p * 0.5 * (1 - S p) * F p\<rparr>;
              let s = s\<lparr>e_as := e_as s + f_aas s * h p * 0.5 * (1 - S p) * F p\<rparr>;
              Some s
            } else do {
              q \<leftarrow> cdiv ok (f_aas s * h p * 0.5 * (1 - S p) * F p * totalpollen_v1 s) (PSatC_v1 s);
              let s = s\<lparr>e_a := e_a s + q\<rparr>;
              q \<leftarrow> cdiv ok (f_aas s * h p * 0.5 * (1 - S p) * F p * totalpollen_v1 s) (PSatC_v1 s);
              let s = s\<lparr>e_as := e_as s + q\<rparr>;
              Some s
            });
       s \<leftarrow> (if totalpollen_v1 s \<ge> PSatC_v1 s then
              Some (s\<lparr>e_as := e_as s + f_asas s * h p * (1 - S p) * F p\<rparr>)
            else do {
              q \<leftarrow> cdiv ok (f_asas s * h p * (1 - S p) * F p * totalpollen_v1 s) (PSatC_v1 s);
              Some (s\<lparr>e_as := e_as s + q\<rparr>)
            });
       Some s
     }"

definition outcross_stmts1 :: "vars1 \<Rightarrow> vars1" where
  "outcross_stmts1 s =
     (let s = s\<lparr>next_f_AA := p_A s * e_A s\<rparr>;
          s = s\<lparr>next_f_Aa := p_A s * e_a s + p_a s * e_A s\<rparr>;
          s = s\<lparr>next_f_Aas := p_A s * e_as s + p_as s * e_A s\<rparr>;
          s = s\<lparr>next_f_aa := p_a s * e_a s\<rparr>;
          s = s\<lparr>next_f_aas := p_a s * e_as s + p_as s * e_a s\<rparr>;
          s = s\<lparr>next_f_asas := p_as s * e_as s\<rparr>
      in s)"

definition selfing_stmts1 :: "divcheck \<Rightarrow> params \<Rightarrow> vars1 \<Rightarrow> vars1 option" where
  "selfing_stmts1 ok p s =
     do {
       q \<leftarrow> cdiv ok 0.5 (1 + ppY p);
       let s = s\<lparr>next_f_AA := next_f_AA s + f_Aas s * q * S p * (1 - d p) * h p * F p\<rparr>;
       let s = s\<lparr>next_f_Aas := next_f_Aas s + f_Aas s * 0.5 * S p * (1 - d p) * h p * F p\<rparr>;
       q \<leftarrow> cdiv ok (0.5 * ppY p) (1 + ppY p);
       let s = s\<lparr>next_f_asas := next_f_asas s + f_Aas s * q * S p * (1 - d p) * h p * F p\<rparr>;
       let s = s\<lparr>next_f_aa := next_f_aa s + f_aas s * 0.25 * S p * (1 - d p) * h p * F p\<rparr>;
       let s = s\<lparr>next_f_aas := next_f_aas s + f_aas s * 0.5 * S p * (1 - d p) * h p * F p\<rparr>;
       let s = s\<lparr>next_f_asas := next_f_asas s + f_aas s * 0.25 * S p * (1 - d p) * h p * F p\<rparr>;
       let s = s\<lparr>next_f_asas := next_f_asas s + f_asas s * S p * (1 - d p) * h p * F p\<rparr>;
       Some s
     }"

definition penalty_stmts1 :: "params \<Rightarrow> vars1 \<Rightarrow> vars1" where
  "penalty_stmts1 p s =
     (let s = s\<lparr>next_f_aa := next_f_aa s * V p\<rparr>;
          s = s\<lparr>next_f_aas := next_f_aas s * V p\<rparr>;
          s = s\<lparr>next_f_asas := next_f_asas s * V p\<rparr>
      in s)"

definition copy_stmts1 :: "vars1 \<Rightarrow> vars1" where
  "copy_stmts1 s =
     (let s = s\<lparr>f_AA := next_f_AA s\<rparr>;
          s = s\<lparr>f_Aa := next_f_Aa s\<rparr>;
          s = s\<lparr>f_Aas := next_f_Aas s\<rparr>;
          s = s\<lparr>f_aa := next_f_aa s\<rparr>;
          s = s\<lparr>f_aas := next_f_aas s\<rparr>;
          s = s\<lparr>f_asas := next_f_asas s\<rparr>
      in s)"

definition normalise_stmts1 :: "divcheck \<Rightarrow> vars1 \<Rightarrow> vars1 option" where
  "normalise_stmts1 ok s =
     (let s = s\<lparr>totalplants_v1 := f_AA s + f_Aa s + f_Aas s + f_aa s + f_aas s + f_asas s\<rparr> in
      if totalplants_v1 s > 0 then
        do {
          q \<leftarrow> cdiv ok (f_AA s) (totalplants_v1 s);
          let s = s\<lparr>f_AA := q\<rparr>;
          q \<leftarrow> cdiv ok (f_Aa s) (totalplants_v1 s);
          let s = s\<lparr>f_Aa := q\<rparr>;
          q \<leftarrow> cdiv ok (f_Aas s) (totalplants_v1 s);
          let s = s\<lparr>f_Aas := q\<rparr>;
          q \<leftarrow> cdiv ok (f_aa s) (totalplants_v1 s);
          let s = s\<lparr>f_aa := q\<rparr>;
          q \<leftarrow> cdiv ok (f_aas s) (totalplants_v1 s);
          let s = s\<lparr>f_aas := q\<rparr>;
          q \<leftarrow> cdiv ok (f_asas s) (totalplants_v1 s);
          let s = s\<lparr>f_asas := q\<rparr>;
          Some s
        }
      else Some s)"

definition body_stmts1 :: "divcheck \<Rightarrow> params \<Rightarrow> vars1 \<Rightarrow> vars1 option" where
  "body_stmts1 ok p s =
     do {
       let s = pollen_sums_stmts1 p s;
       s \<leftarrow> pollen_norm_stmts1 ok s;
       s \<leftarrow> egg_stmts1 ok p s;
       let s = outcross_stmts1 s;
       s \<leftarrow> selfing_stmts1 ok p s;
       let s = penalty_stmts1 p s;
       let s = copy_stmts1 s;
       normalise_stmts1 ok s
     }"

definition cell_stmts1 ::
  "divcheck \<Rightarrow> params \<Rightarrow> bool \<Rightarrow> int \<Rightarrow> real \<Rightarrow> vars1 \<Rightarrow> (vars1 \<times> category) option" where
  "cell_stmts1 ok p pgd endpoint threshold s =
     do {
       let s = start_stmts1 pgd s;
       s \<leftarrow> iterate (body_stmts1 ok p) endpoint 0 s;
       let s = s\<lparr>female_v1 := f_AA s\<rparr>;
       let s = s\<lparr>male_v1 := f_Aa s + f_aa s\<rparr>;
       let s = s\<lparr>inconstant_v1 := f_Aas s + f_aas s + f_asas s\<rparr>;
       Some (s, classify threshold (female_v1 s) (male_v1 s) (inconstant_v1 s))
     }"

definition cur1 :: "vars1 \<Rightarrow> freqs1" where
  "cur1 s = freqs1.truncate s"

definition nxt1 :: "vars1 \<Rightarrow> freqs1" where
  "nxt1 s = \<lparr>f_AA = next_f_AA s, f_Aa = next_f_Aa s, f_Aas = next_f_Aas s,
             f_aa = next_f_aa s, f_aas = next_f_aas s, f_asas = next_f_asas s\<rparr>"

text \<open>The same for Model B.\<close>

record vars2 = freqs2 +
  next_f_AA_MM :: real
  next_f_AA_Mm :: real
  next_f_AA_mm :: real
  next_f_Aa_MM :: real
  next_f_Aa_Mm :: real
  next_f_Aa_mm :: real
  next_f_aa_MM :: real
  next_f_aa_Mm :: real
  next_f_aa_mm :: real
  p_A_M :: real
  p_A_m :: real
  p_a_M :: real
  p_a_m :: real
  e_A_M :: real
  e_A_m :: real
  e_a_M :: real
  e_a_m :: real
  PSatC_v2 :: real
  totalpollen_v2 :: real
  totalplants_v2 :: real
  female_v2 :: real
  male_v2 :: real
  inconstant_v2 :: real

definition start_stmts2 :: "bool \<Rightarrow> vars2 \<Rightarrow> vars2" where
  "start_stmts2 pgd s =
     (if \<not> pgd then
        (let s = s\<lparr>f_AA_MM := 0\<rparr>;
             s = s\<lparr>f_AA_Mm := 0\<rparr>;
             s = s\<lparr>f_AA_mm := 0.499\<rparr>;
             s = s\<lparr>f_Aa_MM := 0\<rparr>;
             s = s\<lparr>f_Aa_Mm := 0.002\<rparr>;
             s = s\<lparr>f_Aa_mm := 0.499\<rparr>;
             s = s\<lparr>f_aa_MM := 0\<rparr>;
             s = s\<lparr>f_aa_Mm := 0\<rparr>;
             s = s\<lparr>f_aa_mm := 0\<rparr>
         in s)
      else
        (let s = s\<lparr>f_AA_MM := 0.499\<rparr>;
             s = s\<lparr>f_AA_Mm := 0\<rparr>;
             s = s\<lparr>f_AA_mm := 0\<rparr>;
             s = s\<lparr>f_Aa_MM := 0.499\<rparr>;
             s = s\<lparr>f_Aa_Mm := 0\<rparr>;
             s = s\<lparr>f_Aa_mm := 0.002\<rparr>;
             s = s\<lparr>f_aa_MM := 0\<rparr>;
             s = s\<lparr>f_aa_Mm := 0\<rparr>;
             s = s\<lparr>f_aa_mm := 0\<rparr>
         in s))"

definition pollen_sums_stmts2 :: "params \<Rightarrow> vars2 \<Rightarrow> vars2" where
  "pollen_sums_stmts2 p s =
     (let s = s\<lparr>p_A_M := 0\<rparr>;
          s = s\<lparr>p_A_m := 0\<rparr>;
          s = s\<lparr>p_a_M := 0\<rparr>;
          s = s\<lparr>p_a_m := 0\<rparr>;
          s = s\<lparr>p_A_M := p_A_M s + f_Aa_MM s * 0.5 * h p * Q p\<rparr>;
          s = s\<lparr>p_a_M := p_a_M s + f_Aa_MM s * 0.5 * h p * Q p\<rparr>;
          s = s\<lparr>p_A_M := p_A_M s + f_Aa_MM s * 0.5 * (1 - h p)\<rparr>;
          s = s\<lparr>p_a_M := p_a_M s + f_Aa_MM s * 0.5 * (1 - h p)\<rparr>;
          s = s\<lparr>p_A_M := p_A_M s + f_Aa_Mm s * 0.25 * h p * Q p\<rparr>;
          s = s\<lparr>p_A_m := p_A_m s + f_Aa_Mm s * 0.25 * h p * Q p\<rparr>;
          s = s\<lparr>p_a_M := p_a_M s + f_Aa_Mm s * 0.25 * h p * Q p\<rparr>;
          s = s\<lparr>p_a_m := p_a_m s + f_Aa_Mm s * 0.25 * h p * Q p\<rparr>;
          s = s\<lparr>p_A_M := p_A_M s + f_Aa_Mm s * 0.25 * (1 - h p)\<rparr>;
          s = s\<lparr>p_A_m := p_A_m s + f_Aa_Mm s * 0.25 * (1 - h p)\<rparr>;
          s = s\<lparr>p_a_M := p_a_M s + f_Aa_Mm s * 0.25 * (1 - h p)\<rparr>;
          s = s\<lparr>p_a_m := p_a_m s + f_Aa_Mm s * 0.25 * (1 - h p)\<rparr>;
          s = s\<lparr>p_A_m := p_A_m s + f_Aa_mm s * 0.5\<rparr>;
          s = s\<lparr>p_a_m := p_a_m s + f_Aa_mm s * 0.5\<rparr>;
          s = s\<lparr>p_a_M := p_a_M s + f_aa_MM s * h p * Q p\<rparr>;
          s = s\<lparr>p_a_M := p_a_M s + f_aa_MM s * (1 - h p)\<rparr>;
          s = s\<lparr>p_a_M := p_a_M s + f_aa_Mm s * 0.5 * h p * Q p\<rparr>;
          s = s\<lparr>p_a_m := p_a_m s + f_aa_Mm s * 0.5 * h p * Q p\<rparr>;
          s = s\<lparr>p_a_M := p_a_M s + f_aa_Mm s * 0.5 * (1 - h p)\<rparr>;
          s = s\<lparr>p_a_m := p_a_m s + f_aa_Mm s * 0.5 * (1 - h p)\<rparr>;
          s = s\<lparr>p_a_m := p_a_m s + f_aa_mm s\<rparr>
      in s)"

definition pollen_norm_stmts2 :: "divcheck \<Rightarrow> vars2 \<Rightarrow> vars2 option" where
  "pollen_norm_stmts2 ok s =
     (let s = s\<lparr>totalpollen_v2 := p_A_M s + p_A_m s + p_a_M s + p_a_m s\<rparr> in
      if totalpollen_v2 s > 0 then
        do {
          q \<leftarrow> cdiv ok (p_A_M s) (totalpollen_v2 s);
          let s = s\<lparr>p_A_M := q\<rparr>;
          q \<leftarrow> cdiv ok (p_A_m s) (totalpollen_v2 s);
          let s = s\<lparr>p_A_m := q\<rparr>;
          q \<leftarrow> cdiv ok (p_a_M s) (totalpollen_v2 s);
          let s = s\<lparr>p_a_M := q\<rparr>;
          q \<leftarrow> cdiv ok (p_a_m s) (totalpollen_v2 s);
          let s = s\<lparr>p_a_m := q\<rparr>;
          Some s
        }
      else Some s)"

definition egg_stmts2 :: "divcheck \<Rightarrow> params \<Rightarrow> vars2 \<Rightarrow> vars2 option" where
  "egg_stmts2 ok p s =
     do {
       let s = s\<lparr>PSatC_v2 := PSatF p * F p * (1 - S p)\<rparr>;
       let s = s\<lparr>e_A_M := 0\<rparr>;
       let s = s\<lparr>e_A_m := 0\<rparr>;
       let s = s\<lparr>e_a_M := 0\<rparr>;
       let s = s\<lparr>e_a_m := 0\<rparr>;
       s \<leftarrow> (if totalpollen_v2 s \<ge> PSatF p then
              Some (s\<lparr>e_A_M := e_A_M s + f_AA_MM s\<rparr>)
            else do {
              q \<leftarrow> cdiv ok (f_AA_MM s * totalpollen_v2 s) (PSatF p);
              Some (s\<lparr>e_A_M := e_A_M s + q\<rparr>)
            });
       s \<leftarrow> (if totalpollen_v2 s \<ge> PSatF p then do {
              let s = s\<lparr>e_A_M := e_A_M s + f_AA_Mm s * 0.5\<rparr>;
              let s = s\<lparr>e_A_m := e_A_m s + f_AA_Mm s * 0.5\<rparr>;
              Some s
            } else do {
              q \<leftarrow> cdiv ok (f_AA_Mm s * 0.5 * totalpollen_v2 s) (PSatF p);
              let s = s\<lparr>e_A_M := e_A_M s + q\<rparr>;
              q \<leftarrow> cdiv ok (f_AA_Mm s * 0.5 * totalpollen_v2 s) (PSatF p);
              let s = s\<lparr>e_A_m := e_A_m s + q\<rparr>;
              Some s
            });
       s \<leftarrow> (if totalpollen_v2 s \<ge> PSatF p then
              Some (s\<lparr>e_A_m := e_A_m s + f_AA_mm s\<rparr>)
            else do {
              q \<leftarrow> cdiv ok (f_AA_mm s * totalpollen_v2 s) (PSatF p);
              Some (s\<lparr>e_A_m := e_A_m s + q\<rparr>)
            });
       s \<leftarrow> (if totalpollen_v2 s \<ge> PSatC_v2 s then do {
              let s = s\<lparr>e_A_M := e_A_M s + f_Aa_MM s * h p * 0.5 * (1 - S p) * F p\<rparr>;
              let s = s\<lparr>e_a_M := e_a_M s + f_Aa_MM s * h p * 0.5 * (1 - S p) * F p\<rparr>;
              Some s
            } else do {
              q \<leftarrow> cdiv ok (f_Aa_MM s * h p * 0.5 * (1 - S p) * F p * totalpollen_v2 s) (PSatC_v2 s);
              let s = s\<lparr>e_A_M := e_A_M s + q\<rparr>;
              q \<leftarrow> cdiv ok (f_Aa_MM s * h p * 0.5 * (1 - S p) * F p * totalpollen_v2 s) (PSatC_v2 s);
              let s = s\<lparr>e_a_M := e_a_M s + q\<rparr>;
              Some s
            });
       s \<leftarrow> (if totalpollen_v2 s \<ge> PSatC_v2 s then do {
              let s = s\<lparr>e_A_M := e_A_M s + f_Aa_Mm s * h p * 0.25 * (1 - S p) * F p\<rparr>;
              let s = s\<lparr>e_A_m := e_A_m s + f_Aa_Mm s * h p * 0.25 * (1 - S p) * F p\<rparr>;
              let s = s\<lparr>e_a_M := e_a_M s + f_Aa_Mm s * h p * 0.25 * (1 - S p) * F p\<rparr>;
              let s = s\<lparr>e_a_m := e_a_m s + f_Aa_Mm s * h p * 0.25 * (1 - S p) * F p\<rparr>;
              Some s
            } else do {
              q \<leftarrow> cdiv ok (f_Aa_Mm s * h p * 0.25 * (1 - S p) * F p * totalpollen_v2 s) (PSatC_v2 s);
              let s = s\<lparr>e_A_M := e_A_M s + q\<rparr>;
              q \<leftarrow> cdiv ok (f_Aa_Mm s * h p * 0.25 * (1 - S p) * F p * totalpollen_v2 s) (PSatC_v2 s);
              let s = s\<lparr>e_A_m := e_A_m s + q\<rparr>;
              q \<leftarrow> cdiv ok (f_Aa_Mm s * h p * 0.25 * (1 - S p) * F p * totalpollen_v2 s) (PSatC_v2 s);
              let s = s\<lparr>e_a_M := e_a_M s + q\<rparr>;
              q \<leftarrow> cdiv ok (f_Aa_Mm s * h p * 0.25 * (1 - S p) * F p * totalpollen_v2 s) (PSatC_v2 s);
              let s = s\<lparr>e_a_m := e_a_m s + q\<rparr>;
              Some s
            });
       s \<leftarrow> (if totalpollen_v2 s \<ge> PSatC_v2 s then
              Some (s\<lparr>e_a_M := e_a_M s + f_aa_MM s * h p * (1 - S p) * F p\<rparr>)
            else do {
              q \<leftarrow> cdiv ok (f_aa_MM s * h p * (1 - S p) * F p * totalpollen_v2 s) (PSatC_v2 s);
              Some (s\<lparr>e_a_M := e_a_M s + q\<rparr>)
            });
       s \<leftarrow> (if totalpollen_v2 s \<ge> PSatC_v2 s then do {
              let s = s\<lparr>e_a_M := e_a_M s + f_aa_Mm s * h p * 0.5 * (1 - S p) * F p\<rparr>;
              let s = s\<lparr>e_a_m := e_a_m s + f_aa_Mm s * h p * 0.5 * (1 - S p) * F p\<rparr>;
              Some s
            } else do {
              q \<leftarrow> cdiv ok (f_aa_Mm s * h p * 0.5 * (1 - S p) * F p * totalpollen_v2 s) (PSatC_v2 s);
              let s = s\<lparr>e_a_M := e_a_M s + q\<rparr>;
              q \<leftarrow> cdiv ok (f_aa_Mm s * h p * 0.5 * (1 - S p) * F p * totalpollen_v2 s) (PSatC_v2 s);
              let s = s\<lparr>e_a_m := e_a_m s + q\<rparr>;
              Some s
            });
       Some s
     }"

definition outcross_stmts2 :: "vars2 \<Rightarrow> vars2" where
  "outcross_stmts2 s =
     (let s = s\<lparr>next_f_AA_MM := p_A_M s * e_A_M s\<rparr>;
          s = s\<lparr>next_f_AA_Mm := p_A_M s * e_A_m s + p_A_m s * e_A_M s\<rparr>;
          s = s\<lparr>next_f_AA_mm := p_A_m s * e_A_m s\<rparr>;
          s = s\<lparr>next_f_Aa_MM := p_A_M s * e_a_M s + p_a_M s * e_A_M s\<rparr>;
          s = s\<lparr>next_f_Aa_Mm := p_A_M s * e_a_m s + p_A_m s * e_a_M s + p_a_M s * e_A_m s + p_a_m s * e_A_M s\<rparr>;
          s = s\<lparr>next_f_Aa_mm := p_A_m s * e_a_m s + p_a_m s * e_A_m s\<rparr>;
          s = s\<lparr>next_f_aa_MM := p_a_M s * e_a_M s\<rparr>;
          s = s\<lparr>next_f_aa_Mm := p_a_M s * e_a_m s + p_a_m s * e_a_M s\<rparr>;
          s = s\<lparr>next_f_aa_mm := p_a_m s * e_a_m s\<rparr>
      in s)"

definition selfing_stmts2 :: "params \<Rightarrow> vars2 \<Rightarrow> vars2" where
  "selfing_stmts2 p s =
     (let s = s\<lparr>next_f_AA_MM := next_f_AA_MM s + f_Aa_MM s * 0.25 * S p * (1 - d p) * h p * F p\<rparr>;
          s = s\<lparr>next_f_Aa_MM := next_f_Aa_MM s + f_Aa_MM s * 0.5 * S p * (1 - d p) * h p * F p\<rparr>;
          s = s\<lparr>next_f_aa_MM := next_f_aa_MM s + f_Aa_MM s * 0.25 * S p * (1 - d p) * h p * F p\<rparr>;
          s = s\<lparr>next_f_AA_MM := next_f_AA_MM s + f_Aa_Mm s * 0.0625 * S p * (1 - d p) * h p * F p\<rparr>;
          s = s\<lparr>next_f_AA_Mm := next_f_AA_Mm s + f_Aa_Mm s * 0.125 * S p * (1 - d p) * h p * F p\<rparr>;
          s = s\<lparr>next_f_AA_mm := next_f_AA_mm s + f_Aa_Mm s * 0.0625 * S p * (1 - d p) * h p * F p\<rparr>;
          s = s\<lparr>next_f_Aa_MM := next_f_Aa_MM s + f_Aa_Mm s * 0.125 * S p * (1 - d p) * h p * F p\<rparr>;
          s = s\<lparr>next_f_Aa_Mm := next_f_Aa_Mm s + f_Aa_Mm s * 0.25 * S p * (1 - d p) * h p * F p\<rparr>;
          s = s\<lparr>next_f_Aa_mm := next_f_Aa_mm s + f_Aa_Mm s * 0.125 * S p * (1 - d p) * h p * F p\<rparr>;
          s = s\<lparr>next_f_aa_MM := next_f_aa_MM s + f_Aa_Mm s * 0.0625 * S p * (1 - d p) * h p * F p\<rparr>;
          s = s\<lparr>next_f_aa_Mm := next_f_aa_Mm s + f_Aa_Mm s * 0.125 * S p * (1 - d p) * h p * F p\<rparr>;
          s = s\<lparr>next_f_aa_mm := next_f_aa_mm s + f_Aa_Mm s * 0.0625 * S p * (1 - d p) * h p * F p\<rparr>;
          s = s\<lparr>next_f_aa_MM := next_f_aa_MM s + f_aa_MM s * S p * (1 - d p) * h p * F p\<rparr>;
          s = s\<lparr>next_f_aa_MM := next_f_aa_MM s + f_aa_Mm s * 0.25 * S p * (1 - d p) * h p * F p\<rparr>;
          s = s\<lparr>next_f_aa_Mm := next_f_aa_Mm s + f_aa_Mm s * 0.5 * S p * (1 - d p) * h p * F p\<rparr>;
          s = s\<lparr>next_f_aa_mm := next_f_aa_mm s + f_aa_Mm s * 0.25 * S p * (1 - d p) * h p * F p\<rparr>
      in s)"

definition penalty_stmts2 :: "params \<Rightarrow> vars2 \<Rightarrow> vars2" where
  "penalty_stmts2 p s =
     (let s = s\<lparr>next_f_aa_MM := next_f_aa_MM s * V p\<rparr>;
          s = s\<lparr>next_f_aa_Mm := next_f_aa_Mm s * V p\<rparr>;
          s = s\<lparr>next_f_aa_mm := next_f_aa_mm s * V p\<rparr>
      in s)"

definition copy_stmts2 :: "vars2 \<Rightarrow> vars2" where
  "copy_stmts2 s =
     (let s = s\<lparr>f_AA_MM := next_f_AA_MM s\<rparr>;
          s = s\<lparr>f_AA_Mm := next_f_AA_Mm s\<rparr>;
          s = s\<lparr>f_AA_mm := next_f_AA_mm s\<rparr>;
          s = s\<lparr>f_Aa_MM := next_f_Aa_MM s\<rparr>;
          s = s\<lparr>f_Aa_Mm := next_f_Aa_Mm s\<rparr>;
          s = s\<lparr>f_Aa_mm := next_f_Aa_mm s\<rparr>;
          s = s\<lparr>f_aa_MM := next_f_aa_MM s\<rparr>;
          s = s\<lparr>f_aa_Mm := next_f_aa_Mm s\<rparr>;
          s = s\<lparr>f_aa_mm := next_f_aa_mm s\<rparr>
      in s)"

definition normalise_stmts2 :: "divcheck \<Rightarrow> vars2 \<Rightarrow> vars2 option" where
  "normalise_stmts2 ok s =
     (let s = s\<lparr>totalplants_v2 := f_AA_MM s + f_AA_Mm s + f_AA_mm s + f_Aa_MM s + f_Aa_Mm s + f_Aa_mm s + f_aa_MM s + f_aa_Mm s + f_aa_mm s\<rparr> in
      if totalplants_v2 s > 0 then
        do {
          q \<leftarrow> cdiv ok (f_AA_MM s) (totalplants_v2 s);
          let s = s\<lparr>f_AA_MM := q\<rparr>;
          q \<leftarrow> cdiv ok (f_AA_Mm s) (totalplants_v2 s);
          let s = s\<lparr>f_AA_Mm := q\<rparr>;
          q \<leftarrow> cdiv ok (f_AA_mm s) (totalplants_v2 s);
          let s = s\<lparr>f_AA_mm := q\<rparr>;
          q \<leftarrow> cdiv ok (f_Aa_MM s) (totalplants_v2 s);
          let s = s\<lparr>f_Aa_MM := q\<rparr>;
          q \<leftarrow> cdiv ok (f_Aa_Mm s) (totalplants_v2 s);
          let s = s\<lparr>f_Aa_Mm := q\<rparr>;
          q \<leftarrow> cdiv ok (f_Aa_mm s) (totalplants_v2 s);
          let s = s\<lparr>f_Aa_mm := q\<rparr>;
          q \<leftarrow> cdiv ok (f_aa_MM s) (totalplants_v2 s);
          let s = s\<lparr>f_aa_MM := q\<rparr>;
          q \<leftarrow> cdiv ok (f_aa_Mm s) (totalplants_v2 s);
          let s = s\<lparr>f_aa_Mm := q\<rparr>;
          q \<leftarrow> cdiv ok (f_aa_mm s) (totalplants_v2 s);
          let s = s\<lparr>f_aa_mm := q\<rparr>;
          Some s
        }
      else Some s)"

definition body_stmts2 :: "divcheck \<Rightarrow> params \<Rightarrow> vars2 \<Rightarrow> vars2 option" where
  "body_stmts2 ok p s =
     do {
       let s = pollen_sums_stmts2 p s;
       s \<leftarrow> pollen_norm_stmts2 ok s;
       s \<leftarrow> egg_stmts2 ok p s;
       let s = outcross_stmts2 s;
       let s = selfing_stmts2 p s;
       let s = penalty_stmts2 p s;
       let s = copy_stmts2 s;
       normalise_stmts2 ok s
     }"

definition cell_stmts2 ::
  "divcheck \<Rightarrow> params \<Rightarrow> bool \<Rightarrow> int \<Rightarrow> real \<Rightarrow> vars2 \<Rightarrow> (vars2 \<times> category) option" where
  "cell_stmts2 ok p pgd endpoint threshold s =
     do {
       let s = start_stmts2 pgd s;
       s \<leftarrow> iterate (body_stmts2 ok p) endpoint 0 s;
       let s = s\<lparr>female_v2 := f_AA_MM s + f_AA_Mm s + f_AA_mm s\<rparr>;
       let s = s\<lparr>male_v2 := f_Aa_mm s + f_aa_mm s\<rparr>;
       let s = s\<lparr>inconstant_v2 := f_Aa_MM s + f_Aa_Mm s + f_aa_MM s + f_aa_Mm s\<rparr>;
       Some (s, classify threshold (female_v2 s) (male_v2 s) (inconstant_v2 s))
     }"

definition cur2 :: "vars2 \<Rightarrow> freqs2" where
  "cur2 s = freqs2.truncate s"

definition nxt2 :: "vars2 \<Rightarrow> freqs2" where
  "nxt2 s = \<lparr>f_AA_MM = next_f_AA_MM s, f_AA_Mm = next_f_AA_Mm s, f_AA_mm = next_f_AA_mm s,
             f_Aa_MM = next_f_Aa_MM s, f_Aa_Mm = next_f_Aa_Mm s, f_Aa_mm = next_f_Aa_mm s,
             f_aa_MM = next_f_aa_MM s, f_aa_Mm = next_f_aa_Mm s, f_aa_mm = next_f_aa_mm s\<rparr>"

text \<open>A state in which every variable holds the same value \<open>x\<close>.\<close>

definition garbage1 :: "real \<Rightarrow> vars1" where
  "garbage1 x =
     \<lparr>f_AA = x, f_Aa = x, f_Aas = x, f_aa = x, f_aas = x, f_asas = x,
      next_f_AA = x, next_f_Aa = x, next_f_Aas = x, next_f_aa = x, next_f_aas = x,
      next_f_asas = x, p_A = x, p_a = x, p_as = x, e_A = x, e_a = x, e_as = x,
      PSatC_v1 = x, totalpollen_v1 = x, totalplants_v1 = x,
      female_v1 = x, male_v1 = x, inconstant_v1 = x\<rparr>"

definition garbage2 :: "real \<Rightarrow> vars2" where
  "garbage2 x =
     \<lparr>f_AA_MM = x, f_AA_Mm = x, f_AA_mm = x, f_Aa_MM = x, f_Aa_Mm = x, f_Aa_mm = x,
      f_aa_MM = x, f_aa_Mm = x, f_aa_mm = x,
      next_f_AA_MM = x, next_f_AA_Mm = x, next_f_AA_mm = x, next_f_Aa_MM = x,
      next_f_Aa_Mm = x, next_f_Aa_mm = x, next_f_aa_MM = x, next_f_aa_Mm = x,
      next_f_aa_mm = x, p_A_M = x, p_A_m = x, p_a_M = x, p_a_m = x,
      e_A_M = x, e_A_m = x, e_a_M = x, e_a_m = x,
      PSatC_v2 = x, totalpollen_v2 = x, totalplants_v2 = x,
      female_v2 = x, male_v2 = x, inconstant_v2 = x\<rparr>"

section \<open>Properties\<close>

subsection \<open>Checked division\<close>

lemma lenient_nonzero: "lenient nonzero"
  by (simp add: lenient_def nonzero_def)

lemma lenient_positive: "lenient positive"
  by (simp add: lenient_def positive_def)

lemma lenientD: "lenient ok \<Longrightarrow> 0 < b \<Longrightarrow> ok b"
  by (simp add: lenient_def)

lemma cdiv_ok: "ok b \<Longrightarrow> cdiv ok a b = Some (a / b)"
  by (simp add: cdiv_def)

text \<open>
  Under \<open>positive\<close> a division has a result exactly when its divisor is strictly
  positive, and a result under \<open>positive\<close> is the result under \<open>nonzero\<close>.
\<close>

lemma cdiv_positive_iff: "(\<exists>q. cdiv positive a b = Some q) \<longleftrightarrow> 0 < b"
  by (simp add: cdiv_def positive_def)

lemma cdiv_positive_nonzero: "cdiv positive a b = Some q \<Longrightarrow> cdiv nonzero a b = Some q"
  by (simp add: cdiv_def positive_def nonzero_def split: if_splits)

lemma limited_positive_nonzero:
  "limited positive x tp T = Some q \<Longrightarrow> limited nonzero x tp T = Some q"
  by (simp add: limited_def cdiv_positive_nonzero split: if_splits)

subsection \<open>Model A, stage by stage\<close>

text \<open>
  Each stage has a result under a lenient check as soon as the total pollen is not
  negative and \<open>1 + ppY\<close> is admissible, and keeps frequencies non-negative when the
  parameters are in their ranges.
\<close>

lemma pollen_raw1_nonneg:
  assumes "nonneg1 f" "0 \<le> h p" "h p \<le> 1" "0 \<le> Q p" "0 \<le> ppY p"
  shows "nonneg3 (pollen_raw1 p f)"
proof -
  have "0 \<le> 1 - h p" using assms by simp
  then show ?thesis
    using assms unfolding nonneg1_def nonneg3_def pollen_raw1_def Let_def
    by simp
qed

lemma totalpollen1_nonneg:
  assumes "nonneg1 f" "0 \<le> h p" "h p \<le> 1" "0 \<le> Q p" "0 \<le> ppY p"
  shows "0 \<le> totalpollen1 p f"
  using pollen_raw1_nonneg [OF assms]
  by (cases "pollen_raw1 p f") (simp add: totalpollen1_def sum3_def nonneg3_def)

lemma pollen1_value:
  assumes okp: "lenient ok" and "pollen_raw1 p f = (a, b, c)"
  shows "pollen1 ok p f =
           Some (if a + b + c > 0 then (a / (a + b + c), b / (a + b + c), c / (a + b + c))
                 else (a, b, c))"
  using assms by (simp add: pollen1_def Let_def cdiv_ok lenientD)

lemma pollen1_ex:
  assumes okp: "lenient ok"
  shows "\<exists>pool. pollen1 ok p f = Some pool
           \<and> (if totalpollen1 p f > 0 then sum3 pool = 1 else pool = pollen_raw1 p f)
           \<and> (nonneg3 (pollen_raw1 p f) \<longrightarrow> nonneg3 pool)"
proof -
  obtain a b c where r: "pollen_raw1 p f = (a, b, c)"
    by (cases "pollen_raw1 p f")
  show ?thesis
  proof (cases "a + b + c > 0")
    case True
    then have "a / (a + b + c) + b / (a + b + c) + c / (a + b + c) = 1"
      by (simp add: add_divide_distrib [symmetric])
    with True show ?thesis
      by (simp add: pollen1_value [OF okp r] r totalpollen1_def sum3_def nonneg3_def)
  next
    case False
    then show ?thesis
      by (simp add: pollen1_value [OF okp r] r totalpollen1_def sum3_def)
  qed
qed

lemma limited_ex:
  assumes okp: "lenient ok" and tp: "0 \<le> tp"
  shows "\<exists>g. limited ok x tp T = Some g \<and> (0 \<le> x \<longrightarrow> 0 \<le> g)"
proof (cases "tp \<ge> T")
  case True
  then show ?thesis by (simp add: limited_def)
next
  case False
  with tp have T: "0 < T" by linarith
  have "0 \<le> x \<Longrightarrow> 0 \<le> x * tp / T"
    using tp T by (simp add: divide_nonneg_pos)
  with False T show ?thesis
    by (simp add: limited_def cdiv_ok lenientD [OF okp])
qed

lemma eggs1_ex:
  assumes okp: "lenient ok" and tp: "0 \<le> totalpollen1 p f"
  shows "\<exists>e. eggs1 ok p f = Some e
           \<and> (nonneg1 f \<and> 0 \<le> h p \<and> S p \<le> 1 \<and> 0 \<le> F p \<longrightarrow> nonneg3 e)"
proof -
  let ?tp = "totalpollen1 p f"
  obtain g1 where g1: "limited ok (f_AA f) ?tp (PSatF p) = Some g1"
      "0 \<le> f_AA f \<longrightarrow> 0 \<le> g1"
    using limited_ex [OF okp tp] by blast
  obtain g3 where g3: "limited ok (f_Aas f * h p * 0.5 * (1 - S p) * F p) ?tp (PSatC p) = Some g3"
      "0 \<le> f_Aas f * h p * 0.5 * (1 - S p) * F p \<longrightarrow> 0 \<le> g3"
    using limited_ex [OF okp tp] by blast
  obtain g5 where g5: "limited ok (f_aas f * h p * 0.5 * (1 - S p) * F p) ?tp (PSatC p) = Some g5"
      "0 \<le> f_aas f * h p * 0.5 * (1 - S p) * F p \<longrightarrow> 0 \<le> g5"
    using limited_ex [OF okp tp] by blast
  obtain g6 where g6: "limited ok (f_asas f * h p * (1 - S p) * F p) ?tp (PSatC p) = Some g6"
      "0 \<le> f_asas f * h p * (1 - S p) * F p \<longrightarrow> 0 \<le> g6"
    using limited_ex [OF okp tp] by blast
  have val: "eggs1 ok p f = Some (0 + g1 + g3, 0 + g5, 0 + g3 + g5 + g6)"
    unfolding eggs1_def Let_def g1(1) g3(1) g5(1) g6(1) by simp
  have "nonneg3 (0 + g1 + g3, 0 + g5, 0 + g3 + g5 + g6)"
    if a: "nonneg1 f" "0 \<le> h p" "S p \<le> 1" "0 \<le> F p"
  proof -
    have s: "0 \<le> 1 - S p" using a by simp
    have "0 \<le> g1" using g1(2) a by (simp add: nonneg1_def)
    moreover have "0 \<le> g3" using g3(2) a s by (simp add: nonneg1_def)
    moreover have "0 \<le> g5" using g5(2) a s by (simp add: nonneg1_def)
    moreover have "0 \<le> g6" using g6(2) a s by (simp add: nonneg1_def)
    ultimately show ?thesis by (simp add: nonneg3_def)
  qed
  with val show ?thesis by blast
qed

lemma outcross1_nonneg:
  "nonneg3 pol \<Longrightarrow> nonneg3 egg \<Longrightarrow> nonneg1 (outcross1 pol egg)"
  by (cases pol, cases egg) (simp add: nonneg3_def outcross1_def nonneg1_def)

lemma half_coeffs:
  fixes y :: real
  assumes "1 + y \<noteq> 0"
  shows "0.5 / (1 + y) + 0.5 + 0.5 * y / (1 + y) = 1"
  using assms by (simp add: divide_simps) (simp add: algebra_simps)

lemma mass3:
  fixes x :: real
  shows "x * a * s * e * hh * ff + 0 + x * b * s * e * hh * ff + 0 + 0 + x * c * s * e * hh * ff
           = x * s * e * hh * ff * (a + b + c)"
  by (simp add: algebra_simps)

lemma self_Aas_ex:
  assumes "ok (1 + ppY p)" "1 + ppY p \<noteq> 0"
  shows "\<exists>c. self_Aas ok p x = Some c \<and> total1 c = selfmass p x
           \<and> (0 \<le> x \<and> 0 \<le> ppY p \<and> 0 \<le> S p \<and> d p \<le> 1 \<and> 0 \<le> h p \<and> 0 \<le> F p \<longrightarrow> nonneg1 c)"
proof -
  let ?k = "S p * (1 - d p) * h p * F p"
  let ?cX = "0.5 / (1 + ppY p)"
  let ?cY = "0.5 * ppY p / (1 + ppY p)"
  let ?c = "\<lparr>f_AA = x * ?cX * S p * (1 - d p) * h p * F p,
             f_Aa = 0,
             f_Aas = x * 0.5 * S p * (1 - d p) * h p * F p,
             f_aa = 0,
             f_aas = 0,
             f_asas = x * ?cY * S p * (1 - d p) * h p * F p\<rparr>"
  have val: "self_Aas ok p x = Some ?c"
    using assms(1) by (simp add: self_Aas_def cdiv_ok)
  have "total1 ?c = x * S p * (1 - d p) * h p * F p * (?cX + 0.5 + ?cY)"
    unfolding total1_def by (simp only: freqs1.select_convs mass3)
  then have tot: "total1 ?c = selfmass p x"
    by (simp only: half_coeffs [OF assms(2)] selfmass_def mult_1_right)
  have "nonneg1 ?c" if a: "0 \<le> x" "0 \<le> ppY p" "0 \<le> S p" "d p \<le> 1" "0 \<le> h p" "0 \<le> F p"
  proof -
    have "0 \<le> 1 - d p" using a by simp
    then show ?thesis using a by (simp add: nonneg1_def)
  qed
  with val tot show ?thesis by blast
qed


lemma self_aas_props:
  "total1 (self_aas p x) = selfmass p x"
  "0 \<le> x \<and> 0 \<le> S p \<and> d p \<le> 1 \<and> 0 \<le> h p \<and> 0 \<le> F p \<Longrightarrow> nonneg1 (self_aas p x)"
proof -
  show "total1 (self_aas p x) = selfmass p x"
    by (simp add: self_aas_def total1_def selfmass_def)
  assume a: "0 \<le> x \<and> 0 \<le> S p \<and> d p \<le> 1 \<and> 0 \<le> h p \<and> 0 \<le> F p"
  then have "0 \<le> 1 - d p" by simp
  with a show "nonneg1 (self_aas p x)" by (simp add: self_aas_def nonneg1_def)
qed

lemma self_asas_props:
  "total1 (self_asas p x) = selfmass p x"
  "0 \<le> x \<and> 0 \<le> S p \<and> d p \<le> 1 \<and> 0 \<le> h p \<and> 0 \<le> F p \<Longrightarrow> nonneg1 (self_asas p x)"
proof -
  show "total1 (self_asas p x) = selfmass p x"
    by (simp add: self_asas_def total1_def selfmass_def)
  assume a: "0 \<le> x \<and> 0 \<le> S p \<and> d p \<le> 1 \<and> 0 \<le> h p \<and> 0 \<le> F p"
  then have "0 \<le> 1 - d p" by simp
  with a show "nonneg1 (self_asas p x)" by (simp add: self_asas_def nonneg1_def)
qed

lemma add1_nonneg: "nonneg1 a \<Longrightarrow> nonneg1 b \<Longrightarrow> nonneg1 (add1 a b)"
  by (simp add: nonneg1_def add1_def)

lemma total1_add1: "total1 (add1 a b) = total1 a + total1 b"
  by (simp add: total1_def add1_def)

lemma selfing1_ex:
  assumes "ok (1 + ppY p)" "1 + ppY p \<noteq> 0"
  shows "\<exists>r. selfing1 ok p f nxt = Some r
           \<and> total1 r = total1 nxt + selfmass p (f_Aas f) + selfmass p (f_aas f) + selfmass p (f_asas f)
           \<and> (nonneg1 f \<and> nonneg1 nxt \<and> 0 \<le> ppY p \<and> 0 \<le> S p \<and> d p \<le> 1 \<and> 0 \<le> h p \<and> 0 \<le> F p
                \<longrightarrow> nonneg1 r)"
proof -
  obtain c3 where c3: "self_Aas ok p (f_Aas f) = Some c3" "total1 c3 = selfmass p (f_Aas f)"
      "0 \<le> f_Aas f \<and> 0 \<le> ppY p \<and> 0 \<le> S p \<and> d p \<le> 1 \<and> 0 \<le> h p \<and> 0 \<le> F p \<longrightarrow> nonneg1 c3"
    using self_Aas_ex [of ok p "f_Aas f"] assms by blast
  let ?r = "add1 (add1 (add1 nxt c3) (self_aas p (f_aas f))) (self_asas p (f_asas f))"
  have val: "selfing1 ok p f nxt = Some ?r"
    by (simp add: selfing1_def c3(1))
  have tot: "total1 ?r = total1 nxt + selfmass p (f_Aas f) + selfmass p (f_aas f) + selfmass p (f_asas f)"
    by (simp add: total1_add1 c3(2) self_aas_props(1) self_asas_props(1))
  have "nonneg1 ?r"
    if a: "nonneg1 f" "nonneg1 nxt" "0 \<le> ppY p" "0 \<le> S p" "d p \<le> 1" "0 \<le> h p" "0 \<le> F p"
  proof -
    have "nonneg1 c3" using c3(3) a by (simp add: nonneg1_def)
    moreover have "nonneg1 (self_aas p (f_aas f))"
      using a by (intro self_aas_props(2)) (simp add: nonneg1_def)
    moreover have "nonneg1 (self_asas p (f_asas f))"
      using a by (intro self_asas_props(2)) (simp add: nonneg1_def)
    ultimately show ?thesis using a(2) by (simp add: add1_nonneg)
  qed
  with val tot show ?thesis by blast
qed

lemma yy_penalty1_nonneg: "nonneg1 nxt \<Longrightarrow> 0 \<le> V p \<Longrightarrow> nonneg1 (yy_penalty1 p nxt)"
  by (simp add: nonneg1_def yy_penalty1_def)

lemma prenorm1_ex:
  assumes okp: "lenient ok" and tp: "0 \<le> totalpollen1 p f"
    and y: "ok (1 + ppY p)" "1 + ppY p \<noteq> 0"
  shows "\<exists>nxt. prenorm1 ok p f = Some nxt \<and> (nonneg1 f \<and> param_ranges p \<longrightarrow> nonneg1 nxt)"
proof -
  obtain pol where pol: "pollen1 ok p f = Some pol"
      "nonneg3 (pollen_raw1 p f) \<longrightarrow> nonneg3 pol"
    using pollen1_ex [OF okp] by blast
  obtain egg where egg: "eggs1 ok p f = Some egg"
      "nonneg1 f \<and> 0 \<le> h p \<and> S p \<le> 1 \<and> 0 \<le> F p \<longrightarrow> nonneg3 egg"
    using eggs1_ex [OF okp tp] by blast
  obtain r where r: "selfing1 ok p f (outcross1 pol egg) = Some r"
      "nonneg1 f \<and> nonneg1 (outcross1 pol egg) \<and> 0 \<le> ppY p \<and> 0 \<le> S p \<and> d p \<le> 1 \<and> 0 \<le> h p \<and> 0 \<le> F p
         \<longrightarrow> nonneg1 r"
    using selfing1_ex [of ok p f "outcross1 pol egg"] y by blast
  have val: "prenorm1 ok p f = Some (yy_penalty1 p r)"
    by (simp add: prenorm1_def pol(1) egg(1) r(1))
  have "nonneg1 (yy_penalty1 p r)" if a: "nonneg1 f" "param_ranges p"
  proof -
    have pr: "0 \<le> h p" "h p \<le> 1" "0 \<le> S p" "S p \<le> 1" "0 \<le> d p" "d p \<le> 1" "0 \<le> V p"
        "0 \<le> Q p" "0 \<le> F p" "0 \<le> ppY p"
      using a(2) by (simp_all add: param_ranges_def)
    have "nonneg3 pol"
      using pol(2) pollen_raw1_nonneg [OF a(1) pr(1) pr(2) pr(8) pr(10)] by simp
    moreover have "nonneg3 egg" using egg(2) a(1) pr by simp
    ultimately have "nonneg1 (outcross1 pol egg)" by (rule outcross1_nonneg)
    then have "nonneg1 r" using r(2) a(1) pr by simp
    then show ?thesis using pr(7) by (rule yy_penalty1_nonneg)
  qed
  with val show ?thesis by blast
qed

lemma nonneg1_total_zero:
  assumes "nonneg1 f" "\<not> total1 f > 0"
  shows "f = zero1"
proof -
  have "f_AA f = 0 \<and> f_Aa f = 0 \<and> f_Aas f = 0 \<and> f_aa f = 0 \<and> f_aas f = 0 \<and> f_asas f = 0"
    using assms unfolding nonneg1_def total1_def by linarith
  then show ?thesis by (simp add: zero1_def)
qed

lemma div6:
  fixes t :: real
  shows "a / t + b / t + c / t + e / t + g / t + i / t = (a + b + c + e + g + i) / t"
  by (simp add: add_divide_distrib)

lemma normalise1_ex:
  assumes okp: "lenient ok"
  shows "\<exists>r. normalise1 ok f = Some r
           \<and> (if total1 f > 0 then total1 r = 1 else r = f)
           \<and> (nonneg1 f \<longrightarrow> nonneg1 r)"
proof (cases "total1 f > 0")
  case True
  define t where "t = total1 f"
  let ?r = "\<lparr>f_AA = f_AA f / t, f_Aa = f_Aa f / t, f_Aas = f_Aas f / t,
             f_aa = f_aa f / t, f_aas = f_aas f / t, f_asas = f_asas f / t\<rparr>"
  have t: "0 < t" using True by (simp add: t_def)
  have val: "normalise1 ok f = Some ?r"
    using True by (simp add: normalise1_def Let_def cdiv_ok lenientD [OF okp] t_def)
  have "total1 ?r = total1 f / t"
    unfolding total1_def by (simp only: freqs1.select_convs div6)
  then have tot: "total1 ?r = 1" using t by (simp add: t_def)
  have "nonneg1 f \<Longrightarrow> nonneg1 ?r"
    using t by (simp add: nonneg1_def)
  with val tot True show ?thesis by simp
next
  case False
  then show ?thesis by (simp add: normalise1_def Let_def)
qed

lemma Generation_Step1_ex:
  assumes okp: "lenient ok" and tp: "0 \<le> totalpollen1 p f"
    and y: "ok (1 + ppY p)" "1 + ppY p \<noteq> 0"
  shows "\<exists>nxt f'. prenorm1 ok p f = Some nxt \<and> Generation_Step1 ok p f = Some f'
           \<and> normalise1 ok nxt = Some f'
           \<and> (if total1 nxt > 0 then total1 f' = 1 else f' = nxt)
           \<and> (nonneg1 f \<and> param_ranges p \<longrightarrow>
                nonneg1 f' \<and> (if total1 nxt > 0 then total1 f' = 1 else total1 nxt = 0 \<and> f' = zero1))"
proof -
  obtain nxt where nxt: "prenorm1 ok p f = Some nxt" "nonneg1 f \<and> param_ranges p \<longrightarrow> nonneg1 nxt"
    using prenorm1_ex [OF okp tp y] by blast
  obtain r where r: "normalise1 ok nxt = Some r" "if total1 nxt > 0 then total1 r = 1 else r = nxt"
      "nonneg1 nxt \<longrightarrow> nonneg1 r"
    using normalise1_ex [OF okp] by blast
  have val: "Generation_Step1 ok p f = Some r"
    by (simp add: Generation_Step1_def nxt(1) r(1))
  have "nonneg1 r \<and> (if total1 nxt > 0 then total1 r = 1 else total1 nxt = 0 \<and> r = zero1)"
    if a: "nonneg1 f" "param_ranges p"
  proof -
    have n: "nonneg1 nxt" using nxt(2) a by simp
    then have "nonneg1 r" using r(3) by simp
    moreover have "total1 r = 1" if "total1 nxt > 0" using r(2) that by simp
    moreover have "total1 nxt = 0 \<and> r = zero1" if f: "\<not> total1 nxt > 0"
    proof -
      have z: "nxt = zero1" using n f by (rule nonneg1_total_zero)
      then have "total1 nxt = 0" by (simp add: zero1_def total1_def)
      with r(2) f z show ?thesis by simp
    qed
    ultimately show ?thesis by simp
  qed
  with nxt(1) val r(1) r(2) show ?thesis by blast
qed

subsection \<open>Model B, stage by stage\<close>

text \<open>Model B has no division by \<open>1 + ppY\<close>: a non-negative total pollen suffices.\<close>

lemma pollen_raw2_nonneg:
  assumes "nonneg2 f" "0 \<le> h p" "h p \<le> 1" "0 \<le> Q p"
  shows "nonneg4 (pollen_raw2 p f)"
proof -
  have "0 \<le> 1 - h p" using assms by simp
  then show ?thesis
    using assms unfolding nonneg2_def nonneg4_def pollen_raw2_def Let_def
    by simp
qed

lemma totalpollen2_nonneg:
  assumes "nonneg2 f" "0 \<le> h p" "h p \<le> 1" "0 \<le> Q p"
  shows "0 \<le> totalpollen2 p f"
  using pollen_raw2_nonneg [OF assms]
  by (cases "pollen_raw2 p f") (simp add: totalpollen2_def sum4_def nonneg4_def)

lemma pollen2_value:
  assumes okp: "lenient ok" and "pollen_raw2 p f = (a, b, c, e)"
  shows "pollen2 ok p f =
           Some (if a + b + c + e > 0
                 then (a / (a + b + c + e), b / (a + b + c + e), c / (a + b + c + e),
                       e / (a + b + c + e))
                 else (a, b, c, e))"
  using assms by (simp add: pollen2_def Let_def cdiv_ok lenientD)

lemma pollen2_ex:
  assumes okp: "lenient ok"
  shows "\<exists>pool. pollen2 ok p f = Some pool
           \<and> (if totalpollen2 p f > 0 then sum4 pool = 1 else pool = pollen_raw2 p f)
           \<and> (nonneg4 (pollen_raw2 p f) \<longrightarrow> nonneg4 pool)"
proof -
  obtain a b c e where r: "pollen_raw2 p f = (a, b, c, e)"
    by (cases "pollen_raw2 p f")
  show ?thesis
  proof (cases "a + b + c + e > 0")
    case True
    then have "a / (a + b + c + e) + b / (a + b + c + e) + c / (a + b + c + e)
                 + e / (a + b + c + e) = 1"
      by (simp add: add_divide_distrib [symmetric])
    with True show ?thesis
      by (simp add: pollen2_value [OF okp r] r totalpollen2_def sum4_def nonneg4_def)
  next
    case False
    then show ?thesis
      by (simp add: pollen2_value [OF okp r] r totalpollen2_def sum4_def)
  qed
qed

lemma eggs2_ex:
  assumes okp: "lenient ok" and tp: "0 \<le> totalpollen2 p f"
  shows "\<exists>e. eggs2 ok p f = Some e
           \<and> (nonneg2 f \<and> 0 \<le> h p \<and> S p \<le> 1 \<and> 0 \<le> F p \<longrightarrow> nonneg4 e)"
proof -
  let ?tp = "totalpollen2 p f"
  obtain g1 where g1: "limited ok (f_AA_MM f) ?tp (PSatF p) = Some g1"
      "0 \<le> f_AA_MM f \<longrightarrow> 0 \<le> g1"
    using limited_ex [OF okp tp] by blast
  obtain g2 where g2: "limited ok (f_AA_Mm f * 0.5) ?tp (PSatF p) = Some g2"
      "0 \<le> f_AA_Mm f * 0.5 \<longrightarrow> 0 \<le> g2"
    using limited_ex [OF okp tp] by blast
  obtain g3 where g3: "limited ok (f_AA_mm f) ?tp (PSatF p) = Some g3"
      "0 \<le> f_AA_mm f \<longrightarrow> 0 \<le> g3"
    using limited_ex [OF okp tp] by blast
  obtain g4 where g4: "limited ok (f_Aa_MM f * h p * 0.5 * (1 - S p) * F p) ?tp (PSatC p) = Some g4"
      "0 \<le> f_Aa_MM f * h p * 0.5 * (1 - S p) * F p \<longrightarrow> 0 \<le> g4"
    using limited_ex [OF okp tp] by blast
  obtain g5 where g5: "limited ok (f_Aa_Mm f * h p * 0.25 * (1 - S p) * F p) ?tp (PSatC p) = Some g5"
      "0 \<le> f_Aa_Mm f * h p * 0.25 * (1 - S p) * F p \<longrightarrow> 0 \<le> g5"
    using limited_ex [OF okp tp] by blast
  obtain g7 where g7: "limited ok (f_aa_MM f * h p * (1 - S p) * F p) ?tp (PSatC p) = Some g7"
      "0 \<le> f_aa_MM f * h p * (1 - S p) * F p \<longrightarrow> 0 \<le> g7"
    using limited_ex [OF okp tp] by blast
  obtain g8 where g8: "limited ok (f_aa_Mm f * h p * 0.5 * (1 - S p) * F p) ?tp (PSatC p) = Some g8"
      "0 \<le> f_aa_Mm f * h p * 0.5 * (1 - S p) * F p \<longrightarrow> 0 \<le> g8"
    using limited_ex [OF okp tp] by blast
  let ?e = "(0 + g1 + g2 + g4 + g5, 0 + g2 + g3 + g5, 0 + g4 + g5 + g7 + g8, 0 + g5 + g8)"
  have val: "eggs2 ok p f = Some ?e"
    unfolding eggs2_def Let_def g1(1) g2(1) g3(1) g4(1) g5(1) g7(1) g8(1) by simp
  have "nonneg4 ?e" if a: "nonneg2 f" "0 \<le> h p" "S p \<le> 1" "0 \<le> F p"
  proof -
    have s: "0 \<le> 1 - S p" using a by simp
    have "0 \<le> g1" using g1(2) a by (simp add: nonneg2_def)
    moreover have "0 \<le> g2" using g2(2) a by (simp add: nonneg2_def)
    moreover have "0 \<le> g3" using g3(2) a by (simp add: nonneg2_def)
    moreover have "0 \<le> g4" using g4(2) a s by (simp add: nonneg2_def)
    moreover have "0 \<le> g5" using g5(2) a s by (simp add: nonneg2_def)
    moreover have "0 \<le> g7" using g7(2) a s by (simp add: nonneg2_def)
    moreover have "0 \<le> g8" using g8(2) a s by (simp add: nonneg2_def)
    ultimately show ?thesis by (simp add: nonneg4_def)
  qed
  with val show ?thesis by blast
qed

lemma outcross2_nonneg:
  "nonneg4 pol \<Longrightarrow> nonneg4 egg \<Longrightarrow> nonneg2 (outcross2 pol egg)"
  by (cases pol, cases egg) (simp add: nonneg4_def outcross2_def nonneg2_def)

lemma self2_totals:
  "total2 (self_Aa_MM p x) = selfmass p x"
  "total2 (self_Aa_Mm p x) = selfmass p x"
  "total2 (self_aa_MM p x) = selfmass p x"
  "total2 (self_aa_Mm p x) = selfmass p x"
  by (simp_all add: self_Aa_MM_def self_Aa_Mm_def self_aa_MM_def self_aa_Mm_def total2_def
      selfmass_def)

lemma self2_nonneg:
  assumes "0 \<le> x" "0 \<le> S p" "d p \<le> 1" "0 \<le> h p" "0 \<le> F p"
  shows "nonneg2 (self_Aa_MM p x)" "nonneg2 (self_Aa_Mm p x)"
    "nonneg2 (self_aa_MM p x)" "nonneg2 (self_aa_Mm p x)"
proof -
  have "0 \<le> 1 - d p" using assms by simp
  then show "nonneg2 (self_Aa_MM p x)" "nonneg2 (self_Aa_Mm p x)"
    "nonneg2 (self_aa_MM p x)" "nonneg2 (self_aa_Mm p x)"
    using assms
    by (simp_all add: self_Aa_MM_def self_Aa_Mm_def self_aa_MM_def self_aa_Mm_def nonneg2_def)
qed

lemma add2_nonneg: "nonneg2 a \<Longrightarrow> nonneg2 b \<Longrightarrow> nonneg2 (add2 a b)"
  by (simp add: nonneg2_def add2_def)

lemma total2_add2: "total2 (add2 a b) = total2 a + total2 b"
  by (simp add: total2_def add2_def)

lemma selfing2_total:
  "total2 (selfing2 p f nxt) = total2 nxt + selfmass p (f_Aa_MM f) + selfmass p (f_Aa_Mm f)
     + selfmass p (f_aa_MM f) + selfmass p (f_aa_Mm f)"
  by (simp add: selfing2_def total2_add2 self2_totals)

lemma selfing2_nonneg:
  assumes "nonneg2 f" "nonneg2 nxt" "0 \<le> S p" "d p \<le> 1" "0 \<le> h p" "0 \<le> F p"
  shows "nonneg2 (selfing2 p f nxt)"
proof -
  have "0 \<le> f_Aa_MM f" "0 \<le> f_Aa_Mm f" "0 \<le> f_aa_MM f" "0 \<le> f_aa_Mm f"
    using assms(1) by (simp_all add: nonneg2_def)
  then show ?thesis
    unfolding selfing2_def using assms
    by (intro add2_nonneg self2_nonneg) simp_all
qed

lemma yy_penalty2_nonneg: "nonneg2 nxt \<Longrightarrow> 0 \<le> V p \<Longrightarrow> nonneg2 (yy_penalty2 p nxt)"
  by (simp add: nonneg2_def yy_penalty2_def)

lemma prenorm2_ex:
  assumes okp: "lenient ok" and tp: "0 \<le> totalpollen2 p f"
  shows "\<exists>nxt. prenorm2 ok p f = Some nxt \<and> (nonneg2 f \<and> param_ranges p \<longrightarrow> nonneg2 nxt)"
proof -
  obtain pol where pol: "pollen2 ok p f = Some pol"
      "nonneg4 (pollen_raw2 p f) \<longrightarrow> nonneg4 pol"
    using pollen2_ex [OF okp] by blast
  obtain egg where egg: "eggs2 ok p f = Some egg"
      "nonneg2 f \<and> 0 \<le> h p \<and> S p \<le> 1 \<and> 0 \<le> F p \<longrightarrow> nonneg4 egg"
    using eggs2_ex [OF okp tp] by blast
  let ?r = "yy_penalty2 p (selfing2 p f (outcross2 pol egg))"
  have val: "prenorm2 ok p f = Some ?r"
    by (simp add: prenorm2_def pol(1) egg(1))
  have "nonneg2 ?r" if a: "nonneg2 f" "param_ranges p"
  proof -
    have pr: "0 \<le> h p" "h p \<le> 1" "0 \<le> S p" "S p \<le> 1" "0 \<le> d p" "d p \<le> 1" "0 \<le> V p"
        "0 \<le> Q p" "0 \<le> F p"
      using a(2) by (simp_all add: param_ranges_def)
    have "nonneg4 pol"
      using pol(2) pollen_raw2_nonneg [OF a(1) pr(1) pr(2) pr(8)] by simp
    moreover have "nonneg4 egg" using egg(2) a(1) pr by simp
    ultimately have "nonneg2 (outcross2 pol egg)" by (rule outcross2_nonneg)
    then have "nonneg2 (selfing2 p f (outcross2 pol egg))"
      using a(1) pr by (intro selfing2_nonneg)
    then show ?thesis using pr(7) by (rule yy_penalty2_nonneg)
  qed
  with val show ?thesis by blast
qed

lemma nonneg2_total_zero:
  assumes "nonneg2 f" "\<not> total2 f > 0"
  shows "f = zero2"
proof -
  have "f_AA_MM f = 0 \<and> f_AA_Mm f = 0 \<and> f_AA_mm f = 0 \<and> f_Aa_MM f = 0 \<and> f_Aa_Mm f = 0
          \<and> f_Aa_mm f = 0 \<and> f_aa_MM f = 0 \<and> f_aa_Mm f = 0 \<and> f_aa_mm f = 0"
    using assms unfolding nonneg2_def total2_def by linarith
  then show ?thesis by (simp add: zero2_def)
qed

lemma div9:
  fixes t :: real
  shows "a / t + b / t + c / t + e / t + g / t + i / t + j / t + k / t + l / t
           = (a + b + c + e + g + i + j + k + l) / t"
  by (simp add: add_divide_distrib)

lemma normalise2_ex:
  assumes okp: "lenient ok"
  shows "\<exists>r. normalise2 ok f = Some r
           \<and> (if total2 f > 0 then total2 r = 1 else r = f)
           \<and> (nonneg2 f \<longrightarrow> nonneg2 r)"
proof (cases "total2 f > 0")
  case True
  define t where "t = total2 f"
  let ?r = "\<lparr>f_AA_MM = f_AA_MM f / t, f_AA_Mm = f_AA_Mm f / t, f_AA_mm = f_AA_mm f / t,
             f_Aa_MM = f_Aa_MM f / t, f_Aa_Mm = f_Aa_Mm f / t, f_Aa_mm = f_Aa_mm f / t,
             f_aa_MM = f_aa_MM f / t, f_aa_Mm = f_aa_Mm f / t, f_aa_mm = f_aa_mm f / t\<rparr>"
  have t: "0 < t" using True by (simp add: t_def)
  have val: "normalise2 ok f = Some ?r"
    using True by (simp add: normalise2_def Let_def cdiv_ok lenientD [OF okp] t_def)
  have "total2 ?r = total2 f / t"
    unfolding total2_def by (simp only: freqs2.select_convs div9)
  then have tot: "total2 ?r = 1" using t by (simp add: t_def)
  have "nonneg2 f \<Longrightarrow> nonneg2 ?r"
    using t by (simp add: nonneg2_def)
  with val tot True show ?thesis by simp
next
  case False
  then show ?thesis by (simp add: normalise2_def Let_def)
qed

lemma Generation_Step2_ex:
  assumes okp: "lenient ok" and tp: "0 \<le> totalpollen2 p f"
  shows "\<exists>nxt f'. prenorm2 ok p f = Some nxt \<and> Generation_Step2 ok p f = Some f'
           \<and> normalise2 ok nxt = Some f'
           \<and> (if total2 nxt > 0 then total2 f' = 1 else f' = nxt)
           \<and> (nonneg2 f \<and> param_ranges p \<longrightarrow>
                nonneg2 f' \<and> (if total2 nxt > 0 then total2 f' = 1 else total2 nxt = 0 \<and> f' = zero2))"
proof -
  obtain nxt where nxt: "prenorm2 ok p f = Some nxt" "nonneg2 f \<and> param_ranges p \<longrightarrow> nonneg2 nxt"
    using prenorm2_ex [OF okp tp] by blast
  obtain r where r: "normalise2 ok nxt = Some r" "if total2 nxt > 0 then total2 r = 1 else r = nxt"
      "nonneg2 nxt \<longrightarrow> nonneg2 r"
    using normalise2_ex [OF okp] by blast
  have val: "Generation_Step2 ok p f = Some r"
    by (simp add: Generation_Step2_def nxt(1) r(1))
  have "nonneg2 r \<and> (if total2 nxt > 0 then total2 r = 1 else total2 nxt = 0 \<and> r = zero2)"
    if a: "nonneg2 f" "param_ranges p"
  proof -
    have n: "nonneg2 nxt" using nxt(2) a by simp
    then have "nonneg2 r" using r(3) by simp
    moreover have "total2 r = 1" if "total2 nxt > 0" using r(2) that by simp
    moreover have "total2 nxt = 0 \<and> r = zero2" if f: "\<not> total2 nxt > 0"
    proof -
      have z: "nxt = zero2" using n f by (rule nonneg2_total_zero)
      then have "total2 nxt = 0" by (simp add: zero2_def total2_def)
      with r(2) f z show ?thesis by simp
    qed
    ultimately show ?thesis by simp
  qed
  with nxt(1) val r(1) r(2) show ?thesis by blast
qed

subsection \<open>The strict check and the program's arithmetic\<close>

text \<open>
  A generation step that has a result when only strictly positive divisors are admitted
  has the same result in the arithmetic of the program.
\<close>

lemma pollen1_positive_nonzero:
  "pollen1 positive p f = Some q \<Longrightarrow> pollen1 nonzero p f = Some q"
  by (auto simp add: pollen1_def Let_def cdiv_def positive_def nonzero_def
      split: prod.splits if_splits bind_splits)

lemma eggs1_positive_nonzero:
  "eggs1 positive p f = Some q \<Longrightarrow> eggs1 nonzero p f = Some q"
  by (auto simp add: eggs1_def Let_def dest!: limited_positive_nonzero split: bind_splits)

lemma selfing1_positive_nonzero:
  "selfing1 positive p f nxt = Some q \<Longrightarrow> selfing1 nonzero p f nxt = Some q"
  by (auto simp add: selfing1_def self_Aas_def dest!: cdiv_positive_nonzero split: bind_splits)

lemma normalise1_positive_nonzero:
  "normalise1 positive f = Some q \<Longrightarrow> normalise1 nonzero f = Some q"
  by (auto simp add: normalise1_def Let_def cdiv_def positive_def nonzero_def
      split: if_splits bind_splits)

lemma Generation_Step1_positive_nonzero:
  "Generation_Step1 positive p f = Some q \<Longrightarrow> Generation_Step1 nonzero p f = Some q"
  by (auto simp add: Generation_Step1_def prenorm1_def
      dest!: pollen1_positive_nonzero eggs1_positive_nonzero selfing1_positive_nonzero
        normalise1_positive_nonzero
      split: bind_splits)

lemma pollen2_positive_nonzero:
  "pollen2 positive p f = Some q \<Longrightarrow> pollen2 nonzero p f = Some q"
  by (auto simp add: pollen2_def Let_def cdiv_def positive_def nonzero_def
      split: prod.splits if_splits bind_splits)

lemma eggs2_positive_nonzero:
  "eggs2 positive p f = Some q \<Longrightarrow> eggs2 nonzero p f = Some q"
  by (auto simp add: eggs2_def Let_def dest!: limited_positive_nonzero split: bind_splits)

lemma normalise2_positive_nonzero:
  "normalise2 positive f = Some q \<Longrightarrow> normalise2 nonzero f = Some q"
  by (auto simp add: normalise2_def Let_def cdiv_def positive_def nonzero_def
      split: if_splits bind_splits)

lemma Generation_Step2_positive_nonzero:
  "Generation_Step2 positive p f = Some q \<Longrightarrow> Generation_Step2 nonzero p f = Some q"
  by (auto simp add: Generation_Step2_def prenorm2_def
      dest!: pollen2_positive_nonzero eggs2_positive_nonzero normalise2_positive_nonzero
      split: bind_splits)

subsection \<open>Concrete inputs\<close>

lemma start_nonneg: "nonneg1 (start1 pgd)" "nonneg2 (start2 pgd)"
  by (simp_all add: nonneg1_def start1_def nonneg2_def start2_def)

lemma default_params_ranges: "param_ranges default_params"
  by (simp add: param_ranges_def default_params_def)

lemma totalpollen_default:
  "totalpollen1 default_params (start1 False) = 501 / 1000"
  "totalpollen2 default_params (start2 False) = 501 / 1000"
  by (simp_all add: totalpollen1_def pollen_raw1_def sum3_def totalpollen2_def pollen_raw2_def
      sum4_def default_params_def start1_def start2_def)

lemma step1_default:
  "Generation_Step1 nonzero default_params (start1 False) =
     Some \<lparr>f_AA = 999 / 2000, f_Aa = 166167 / 334000, f_Aas = 833 / 334000,
           f_aa = 0, f_aas = 499 / 1002000, f_asas = 1 / 501000\<rparr>"
  by (simp add: Generation_Step1_def prenorm1_def pollen1_def pollen_raw1_def eggs1_def
      totalpollen1_def sum3_def limited_def PSatC_def selfing1_def self_Aas_def self_aas_def
      self_asas_def add1_def cdiv_def nonzero_def default_params_def start1_def outcross1_def
      yy_penalty1_def normalise1_def total1_def)

lemma step2_default:
  "Generation_Step2 nonzero default_params (start2 False) =
     Some \<lparr>f_AA_MM = 1 / 2004000, f_AA_Mm = 2497 / 2004000, f_AA_mm = 1997 / 4008,
     f_Aa_MM = 1 / 1002000, f_Aa_Mm = 1499 / 1002000, f_Aa_mm = 333 / 668,
     f_aa_MM = 1 / 2004000, f_aa_Mm = 1 / 4000, f_aa_mm = 1 / 4008\<rparr>"
  by (simp add: Generation_Step2_def prenorm2_def pollen2_def pollen_raw2_def eggs2_def
      totalpollen2_def sum4_def limited_def PSatC_def selfing2_def self_Aa_MM_def self_Aa_Mm_def
      self_aa_MM_def self_aa_Mm_def add2_def cdiv_def nonzero_def default_params_def start2_def
      outcross2_def yy_penalty2_def normalise2_def total2_def)

lemma step1_females:
  "Generation_Step1 nonzero (default_params\<lparr>h := 0, ppY := 0\<rparr>) (start1 False) =
     Some \<lparr>f_AA = 1, f_Aa = 0, f_Aas = 0, f_aa = 0, f_aas = 0, f_asas = 0\<rparr>"
  by (simp add: Generation_Step1_def prenorm1_def pollen1_def pollen_raw1_def eggs1_def
      totalpollen1_def sum3_def limited_def PSatC_def selfing1_def self_Aas_def self_aas_def
      self_asas_def add1_def cdiv_def nonzero_def default_params_def start1_def outcross1_def
      yy_penalty1_def normalise1_def total1_def)

subsection \<open>One generation\<close>

text \<open>
  C1. For non-negative genotype frequencies and parameters h, S, d, V in [0,1] and
  Q, F, PSatF, ppY not negative, one generation step has a result, in Model A and in
  Model B; its entries are not negative; they sum to 1 if the total before the
  normalisation is strictly positive, and otherwise that total is 0 and every entry of
  the result is 0.
\<close>

theorem generation_step_normalised:
  assumes "nonneg1 f" and "nonneg2 g" and "param_ranges p"
  shows "(\<exists>nxt f'. prenorm1 nonzero p f = Some nxt \<and> Generation_Step1 nonzero p f = Some f'
            \<and> nonneg1 f'
            \<and> (if total1 nxt > 0 then total1 f' = 1 else total1 nxt = 0 \<and> f' = zero1))
       \<and> (\<exists>nxt g'. prenorm2 nonzero p g = Some nxt \<and> Generation_Step2 nonzero p g = Some g'
            \<and> nonneg2 g'
            \<and> (if total2 nxt > 0 then total2 g' = 1 else total2 nxt = 0 \<and> g' = zero2))"
proof -
  have pr: "0 \<le> h p" "h p \<le> 1" "0 \<le> Q p" "0 \<le> ppY p"
    using assms(3) by (simp_all add: param_ranges_def)
  have y: "nonzero (1 + ppY p)" "1 + ppY p \<noteq> 0"
    using pr(4) by (simp_all add: nonzero_def)
  have "0 \<le> totalpollen1 p f"
    using assms(1) pr by (rule totalpollen1_nonneg)
  from Generation_Step1_ex [OF lenient_nonzero this y] assms(1,3)
  have A: "\<exists>nxt f'. prenorm1 nonzero p f = Some nxt \<and> Generation_Step1 nonzero p f = Some f'
            \<and> nonneg1 f'
            \<and> (if total1 nxt > 0 then total1 f' = 1 else total1 nxt = 0 \<and> f' = zero1)"
    by blast
  have "0 \<le> totalpollen2 p g"
    using assms(2) pr(1-3) by (rule totalpollen2_nonneg)
  from Generation_Step2_ex [OF lenient_nonzero this] assms(2,3)
  have B: "\<exists>nxt g'. prenorm2 nonzero p g = Some nxt \<and> Generation_Step2 nonzero p g = Some g'
            \<and> nonneg2 g'
            \<and> (if total2 nxt > 0 then total2 g' = 1 else total2 nxt = 0 \<and> g' = zero2)"
    by blast
  from A B show ?thesis by (rule conjI)
qed

theorem generation_step_normalised_witness:
  "nonneg1 (start1 False) \<and> nonneg2 (start2 False) \<and> param_ranges default_params
   \<and> (\<exists>nxt f'. prenorm1 nonzero default_params (start1 False) = Some nxt
          \<and> Generation_Step1 nonzero default_params (start1 False) = Some f'
          \<and> nonneg1 f'
          \<and> (if total1 nxt > 0 then total1 f' = 1 else total1 nxt = 0 \<and> f' = zero1))
   \<and> (\<exists>nxt g'. prenorm2 nonzero default_params (start2 False) = Some nxt
          \<and> Generation_Step2 nonzero default_params (start2 False) = Some g'
          \<and> nonneg2 g'
          \<and> (if total2 nxt > 0 then total2 g' = 1 else total2 nxt = 0 \<and> g' = zero2))"
  using generation_step_normalised [OF start_nonneg(1) start_nonneg(2) default_params_ranges]
    start_nonneg default_params_ranges
  by blast

subsection \<open>The pollen pool\<close>

lemma nonneg3_sum_zero:
  assumes "nonneg3 t" "sum3 t = 0"
  shows "t = (0, 0, 0)"
proof -
  obtain a b c where t: "t = (a, b, c)" by (cases t)
  from assms have "0 \<le> a" "0 \<le> b" "0 \<le> c" "a + b + c = 0"
    by (simp_all add: t nonneg3_def sum3_def)
  then have "a = 0 \<and> b = 0 \<and> c = 0" by linarith
  then show ?thesis by (simp add: t)
qed

lemma nonneg4_sum_zero:
  assumes "nonneg4 t" "sum4 t = 0"
  shows "t = (0, 0, 0, 0)"
proof -
  obtain a b c e where t: "t = (a, b, c, e)" by (cases t)
  from assms have "0 \<le> a" "0 \<le> b" "0 \<le> c" "0 \<le> e" "a + b + c + e = 0"
    by (simp_all add: t nonneg4_def sum4_def)
  then have "a = 0 \<and> b = 0 \<and> c = 0 \<and> e = 0" by linarith
  then show ?thesis by (simp add: t)
qed

lemma all_female1_no_pollen: "all_female1 f \<Longrightarrow> totalpollen1 p f = 0"
  by (simp add: all_female1_def totalpollen1_def pollen_raw1_def sum3_def)

lemma all_female2_no_pollen: "all_female2 f \<Longrightarrow> totalpollen2 p f = 0"
  by (simp add: all_female2_def totalpollen2_def pollen_raw2_def sum4_def)

lemma totalpollen1_eq:
  "totalpollen1 p f =
     f_Aa f / 2 + f_Aas f * pollen_output p / 2
       + (f_Aa f / 2 + f_aa f + f_Aas f * pollen_output p / 2 + f_aas f * pollen_output p
            + f_asas f * pollen_output p) * ppY p"
  unfolding totalpollen1_def pollen_raw1_def sum3_def pollen_output_def Let_def
  by (simp add: field_simps)

lemma no_pollen_all_female1:
  assumes f: "nonneg1 f" and c: "0 < pollen_output p" and y: "0 < ppY p"
    and tp: "totalpollen1 p f = 0"
  shows "all_female1 f"
proof -
  define u where "u = f_Aas f * pollen_output p"
  define v where "v = f_aas f * pollen_output p"
  define w where "w = f_asas f * pollen_output p"
  define M where "M = f_Aa f / 2 + f_aa f + u / 2 + v + w"
  have nn: "0 \<le> f_Aa f" "0 \<le> f_Aas f" "0 \<le> f_aa f" "0 \<le> f_aas f" "0 \<le> f_asas f"
    using f by (simp_all add: nonneg1_def)
  have uvw: "0 \<le> u" "0 \<le> v" "0 \<le> w"
    using nn c by (simp_all add: u_def v_def w_def)
  then have "0 \<le> M" using nn by (simp add: M_def)
  then have My: "0 \<le> M * ppY p" using y by simp
  have "f_Aa f / 2 + u / 2 + M * ppY p = 0"
    using tp by (simp add: totalpollen1_eq u_def v_def w_def M_def)
  with nn uvw My have z: "f_Aa f = 0 \<and> u = 0 \<and> M * ppY p = 0"
    by linarith
  with y have "M = 0" by simp
  with nn uvw have "f_aa f = 0 \<and> v = 0 \<and> w = 0"
    unfolding M_def by linarith
  with z c show ?thesis
    by (simp add: all_female1_def u_def v_def w_def)
qed

lemma totalpollen2_eq:
  "totalpollen2 p f =
     (f_Aa_MM f + f_Aa_Mm f + f_aa_MM f + f_aa_Mm f) * pollen_output p + f_Aa_mm f + f_aa_mm f"
  unfolding totalpollen2_def pollen_raw2_def sum4_def pollen_output_def Let_def
  by (simp add: field_simps)

lemma no_pollen_all_female2:
  assumes f: "nonneg2 f" and c: "0 < pollen_output p" and tp: "totalpollen2 p f = 0"
  shows "all_female2 f"
proof -
  define M where "M = f_Aa_MM f + f_Aa_Mm f + f_aa_MM f + f_aa_Mm f"
  have nn: "0 \<le> f_Aa_MM f" "0 \<le> f_Aa_Mm f" "0 \<le> f_Aa_mm f" "0 \<le> f_aa_MM f"
      "0 \<le> f_aa_Mm f" "0 \<le> f_aa_mm f"
    using f by (simp_all add: nonneg2_def)
  then have "0 \<le> M" by (simp add: M_def)
  then have Mc: "0 \<le> M * pollen_output p" using c by simp
  have "M * pollen_output p + f_Aa_mm f + f_aa_mm f = 0"
    using tp by (simp add: totalpollen2_eq M_def)
  with nn Mc have z: "M * pollen_output p = 0 \<and> f_Aa_mm f = 0 \<and> f_aa_mm f = 0"
    by linarith
  with c have "M = 0" by simp
  with nn have "f_Aa_MM f = 0 \<and> f_Aa_Mm f = 0 \<and> f_aa_MM f = 0 \<and> f_aa_Mm f = 0"
    unfolding M_def by linarith
  with z show ?thesis
    by (simp add: all_female2_def)
qed

text \<open>
  C2, as stated, fails. In Model A with ppY = 0 a population of aa males only has a pollen
  pool that sums to 0, and it has no female at all. In Model B with h = 1 and Q = 0 a
  population of Aa MM inconstants only has a pollen pool that sums to 0, and it has no
  female either. Both parameter settings are inside the ranges of the claim.
\<close>

theorem pollen_pool_counterexample:
  "pollen1 nonzero (default_params\<lparr>ppY := 0\<rparr>) (zero1\<lparr>f_aa := 1\<rparr>) = Some (0, 0, 0)
   \<and> sum3 (0, 0, 0) = 0
   \<and> nonneg1 (zero1\<lparr>f_aa := 1\<rparr>)
   \<and> aggregates1 (zero1\<lparr>f_aa := 1\<rparr>) = (0, 1, 0)
   \<and> \<not> all_female1 (zero1\<lparr>f_aa := 1\<rparr>)
   \<and> pollen2 nonzero (default_params\<lparr>h := 1, Q := 0\<rparr>) (zero2\<lparr>f_Aa_MM := 1\<rparr>) = Some (0, 0, 0, 0)
   \<and> sum4 (0, 0, 0, 0) = 0
   \<and> nonneg2 (zero2\<lparr>f_Aa_MM := 1\<rparr>)
   \<and> aggregates2 (zero2\<lparr>f_Aa_MM := 1\<rparr>) = (0, 0, 1)
   \<and> \<not> all_female2 (zero2\<lparr>f_Aa_MM := 1\<rparr>)"
  by (simp add: pollen1_def pollen_raw1_def pollen2_def pollen_raw2_def default_params_def
      zero1_def zero2_def sum3_def sum4_def nonneg1_def nonneg2_def aggregates1_def aggregates2_def
      female1_def male1_def inconstant1_def female2_def male2_def inconstant2_def
      all_female1_def all_female2_def)

text \<open>
  C2, amended. For non-negative genotype frequencies and h, Q (and ppY in Model A) in
  [0,1], the pollen pool has non-negative entries; they sum to 1 exactly when the total
  pollen is strictly positive and to 0 exactly when it is 0. An entirely female
  population has a pool that sums to 0; conversely a pool that sums to 0 means an
  entirely female population provided the pollen output of inconstants,
  h * Q + (1 - h), is strictly positive and, in Model A, ppY is strictly positive.
\<close>

theorem pollen_pool_normalised:
  assumes "nonneg1 f" and "nonneg2 g"
    and "0 \<le> h p" and "h p \<le> 1" and "0 \<le> Q p" and "Q p \<le> 1"
    and "0 \<le> ppY p" and "ppY p \<le> 1"
  shows "(\<exists>pool. pollen1 nonzero p f = Some pool \<and> nonneg3 pool
            \<and> (sum3 pool = 1 \<longleftrightarrow> totalpollen1 p f > 0)
            \<and> (sum3 pool = 0 \<longleftrightarrow> totalpollen1 p f = 0)
            \<and> (all_female1 f \<longrightarrow> sum3 pool = 0)
            \<and> (0 < pollen_output p \<and> 0 < ppY p \<and> sum3 pool = 0 \<longrightarrow> all_female1 f))
       \<and> (\<exists>pool. pollen2 nonzero p g = Some pool \<and> nonneg4 pool
            \<and> (sum4 pool = 1 \<longleftrightarrow> totalpollen2 p g > 0)
            \<and> (sum4 pool = 0 \<longleftrightarrow> totalpollen2 p g = 0)
            \<and> (all_female2 g \<longrightarrow> sum4 pool = 0)
            \<and> (0 < pollen_output p \<and> sum4 pool = 0 \<longrightarrow> all_female2 g))"
proof -
  have raw1: "nonneg3 (pollen_raw1 p f)"
    using assms(1,3,4,5,7) by (rule pollen_raw1_nonneg)
  have tp1: "0 \<le> totalpollen1 p f"
    using assms(1,3,4,5,7) by (rule totalpollen1_nonneg)
  obtain pool where pool: "pollen1 nonzero p f = Some pool"
      "if totalpollen1 p f > 0 then sum3 pool = 1 else pool = pollen_raw1 p f"
      "nonneg3 pool"
    using pollen1_ex [OF lenient_nonzero, of p f] raw1 by blast
  have s1: "sum3 pool = 1 \<longleftrightarrow> totalpollen1 p f > 0"
    using pool(2) tp1 by (auto simp add: totalpollen1_def split: if_splits)
  have s0: "sum3 pool = 0 \<longleftrightarrow> totalpollen1 p f = 0"
    using pool(2) tp1 by (auto simp add: totalpollen1_def split: if_splits)
  have af: "sum3 pool = 0" if "all_female1 f"
    using s0 all_female1_no_pollen [OF that] by simp
  have fa: "all_female1 f" if "0 < pollen_output p" "0 < ppY p" "sum3 pool = 0"
    using no_pollen_all_female1 [OF assms(1) that(1,2)] s0 that(3) by simp
  have A: "\<exists>pool. pollen1 nonzero p f = Some pool \<and> nonneg3 pool
            \<and> (sum3 pool = 1 \<longleftrightarrow> totalpollen1 p f > 0)
            \<and> (sum3 pool = 0 \<longleftrightarrow> totalpollen1 p f = 0)
            \<and> (all_female1 f \<longrightarrow> sum3 pool = 0)
            \<and> (0 < pollen_output p \<and> 0 < ppY p \<and> sum3 pool = 0 \<longrightarrow> all_female1 f)"
    using pool(1,3) s1 s0 af fa by blast
  have raw2: "nonneg4 (pollen_raw2 p g)"
    using assms(2,3,4,5) by (rule pollen_raw2_nonneg)
  have tp2: "0 \<le> totalpollen2 p g"
    using assms(2,3,4,5) by (rule totalpollen2_nonneg)
  obtain pool2 where pool2: "pollen2 nonzero p g = Some pool2"
      "if totalpollen2 p g > 0 then sum4 pool2 = 1 else pool2 = pollen_raw2 p g"
      "nonneg4 pool2"
    using pollen2_ex [OF lenient_nonzero, of p g] raw2 by blast
  have t1: "sum4 pool2 = 1 \<longleftrightarrow> totalpollen2 p g > 0"
    using pool2(2) tp2 by (auto simp add: totalpollen2_def split: if_splits)
  have t0: "sum4 pool2 = 0 \<longleftrightarrow> totalpollen2 p g = 0"
    using pool2(2) tp2 by (auto simp add: totalpollen2_def split: if_splits)
  have af2: "sum4 pool2 = 0" if "all_female2 g"
    using t0 all_female2_no_pollen [OF that] by simp
  have fa2: "all_female2 g" if "0 < pollen_output p" "sum4 pool2 = 0"
    using no_pollen_all_female2 [OF assms(2) that(1)] t0 that(2) by simp
  have B: "\<exists>pool. pollen2 nonzero p g = Some pool \<and> nonneg4 pool
            \<and> (sum4 pool = 1 \<longleftrightarrow> totalpollen2 p g > 0)
            \<and> (sum4 pool = 0 \<longleftrightarrow> totalpollen2 p g = 0)
            \<and> (all_female2 g \<longrightarrow> sum4 pool = 0)
            \<and> (0 < pollen_output p \<and> sum4 pool = 0 \<longrightarrow> all_female2 g)"
    using pool2(1,3) t1 t0 af2 fa2 by blast
  from A B show ?thesis by (rule conjI)
qed

theorem pollen_pool_normalised_witness:
  "nonneg1 (start1 False) \<and> nonneg2 (start2 False)
   \<and> 0 \<le> h default_params \<and> h default_params \<le> 1
   \<and> 0 \<le> Q default_params \<and> Q default_params \<le> 1
   \<and> 0 \<le> ppY default_params \<and> ppY default_params \<le> 1
   \<and> (\<exists>pool. pollen1 nonzero default_params (start1 False) = Some pool
          \<and> nonneg3 pool \<and> sum3 pool = 1)
   \<and> (\<exists>pool. pollen2 nonzero default_params (start2 False) = Some pool
          \<and> nonneg4 pool \<and> sum4 pool = 1)"
proof -
  have a: "0 \<le> h default_params" "h default_params \<le> 1"
    "0 \<le> Q default_params" "Q default_params \<le> 1"
    "0 \<le> ppY default_params" "ppY default_params \<le> 1"
    by (simp_all add: default_params_def)
  have tp: "totalpollen1 default_params (start1 False) > 0"
    "totalpollen2 default_params (start2 False) > 0"
    by (simp_all add: totalpollen_default)
  from pollen_pool_normalised [OF start_nonneg(1) start_nonneg(2) a] tp a start_nonneg
  show ?thesis by blast
qed

subsection \<open>Selfing\<close>

text \<open>
  C5. A selfing genotype at frequency x adds, over all offspring genotypes, the mass
  x * S * (1 - d) * h * F: in Model A the genotypes Aa* (for ppY not negative), aa* and
  a*a*, in Model B the genotypes Aa MM, Aa Mm, aa MM and aa Mm. The coefficients of the
  Aa* block, 0.5/(1+ppY), 0.5 and 0.5 ppY/(1+ppY), sum to 1. The selfing stage adds
  exactly these masses to the total of the outcrossed frequencies.
\<close>

theorem selfed_mass:
  assumes "0 \<le> ppY p"
  shows "(\<exists>c. self_Aas nonzero p x = Some c \<and> total1 c = x * S p * (1 - d p) * h p * F p)
       \<and> total1 (self_aas p x) = x * S p * (1 - d p) * h p * F p
       \<and> total1 (self_asas p x) = x * S p * (1 - d p) * h p * F p
       \<and> total2 (self_Aa_MM p x) = x * S p * (1 - d p) * h p * F p
       \<and> total2 (self_Aa_Mm p x) = x * S p * (1 - d p) * h p * F p
       \<and> total2 (self_aa_MM p x) = x * S p * (1 - d p) * h p * F p
       \<and> total2 (self_aa_Mm p x) = x * S p * (1 - d p) * h p * F p
       \<and> 0.5 / (1 + ppY p) + 0.5 + 0.5 * ppY p / (1 + ppY p) = 1
       \<and> (\<exists>r. selfing1 nonzero p f nxt = Some r
              \<and> total1 r = total1 nxt + selfmass p (f_Aas f) + selfmass p (f_aas f)
                              + selfmass p (f_asas f))
       \<and> total2 (selfing2 p g nxt') = total2 nxt' + selfmass p (f_Aa_MM g) + selfmass p (f_Aa_Mm g)
                              + selfmass p (f_aa_MM g) + selfmass p (f_aa_Mm g)"
proof -
  have y: "nonzero (1 + ppY p)" "1 + ppY p \<noteq> 0"
    using assms by (simp_all add: nonzero_def)
  have 1: "\<exists>c. self_Aas nonzero p x = Some c \<and> total1 c = x * S p * (1 - d p) * h p * F p"
    using self_Aas_ex [of nonzero p x] y by (auto simp add: selfmass_def)
  have 2: "total1 (self_aas p x) = x * S p * (1 - d p) * h p * F p"
    "total1 (self_asas p x) = x * S p * (1 - d p) * h p * F p"
    by (simp_all only: self_aas_props(1) self_asas_props(1) selfmass_def)
  have 3: "total2 (self_Aa_MM p x) = x * S p * (1 - d p) * h p * F p"
    "total2 (self_Aa_Mm p x) = x * S p * (1 - d p) * h p * F p"
    "total2 (self_aa_MM p x) = x * S p * (1 - d p) * h p * F p"
    "total2 (self_aa_Mm p x) = x * S p * (1 - d p) * h p * F p"
    by (simp_all only: self2_totals selfmass_def)
  have 4: "0.5 / (1 + ppY p) + 0.5 + 0.5 * ppY p / (1 + ppY p) = 1"
    using y(2) by (rule half_coeffs)
  have 5: "\<exists>r. selfing1 nonzero p f nxt = Some r
              \<and> total1 r = total1 nxt + selfmass p (f_Aas f) + selfmass p (f_aas f)
                              + selfmass p (f_asas f)"
    using selfing1_ex [of nonzero p f nxt] y by blast
  note 6 = selfing2_total [of p g nxt']
  from 1 2 3 4 5 6 show ?thesis by (intro conjI)
qed

theorem selfed_mass_witness:
  "(0::real) \<le> ppY default_params
   \<and> (\<exists>c. self_Aas nonzero default_params 1 = Some c
          \<and> total1 c = 1 * S default_params * (1 - d default_params) * h default_params * F default_params)
   \<and> 0.5 / (1 + ppY default_params) + 0.5 + 0.5 * ppY default_params / (1 + ppY default_params) = 1"
proof -
  have a: "0 \<le> ppY default_params" by (simp add: default_params_def)
  from selfed_mass [OF a, of 1] a show ?thesis by blast
qed

subsection \<open>Divisors\<close>

text \<open>
  C6, as stated, fails. Its preconditions leave ppY, h and Q free. In Model A with
  ppY = -1 (females only, no pollen limitation) the selfing block divides by
  \<open>1 + ppY = 0\<close>. In Model B with h = 2 and Q = 0 a population of Aa MM has total pollen
  -1, which is below \<open>PSatF = 0\<close>, so the pollen-limitation branch divides by 0.
\<close>

theorem divisors_positive_counterexample:
  "nonneg1 (zero1\<lparr>f_AA := 1\<rparr>)
   \<and> PSatF (default_params\<lparr>ppY := -1\<rparr>) = 0
   \<and> F (default_params\<lparr>ppY := -1\<rparr>) = 1
   \<and> S (default_params\<lparr>ppY := -1\<rparr>) = 0
   \<and> totalpollen1 (default_params\<lparr>ppY := -1\<rparr>) (zero1\<lparr>f_AA := 1\<rparr>) = 0
   \<and> 1 + ppY (default_params\<lparr>ppY := -1\<rparr>) = 0
   \<and> selfing1 nonzero (default_params\<lparr>ppY := -1\<rparr>) (zero1\<lparr>f_AA := 1\<rparr>) zero1 = None
   \<and> Generation_Step1 nonzero (default_params\<lparr>ppY := -1\<rparr>) (zero1\<lparr>f_AA := 1\<rparr>) = None
   \<and> Generation_Step1 positive (default_params\<lparr>ppY := -1\<rparr>) (zero1\<lparr>f_AA := 1\<rparr>) = None
   \<and> nonneg2 (zero2\<lparr>f_Aa_MM := 1\<rparr>)
   \<and> PSatF (default_params\<lparr>h := 2, Q := 0\<rparr>) = 0
   \<and> totalpollen2 (default_params\<lparr>h := 2, Q := 0\<rparr>) (zero2\<lparr>f_Aa_MM := 1\<rparr>) = -1
   \<and> eggs2 nonzero (default_params\<lparr>h := 2, Q := 0\<rparr>) (zero2\<lparr>f_Aa_MM := 1\<rparr>) = None
   \<and> Generation_Step2 nonzero (default_params\<lparr>h := 2, Q := 0\<rparr>) (zero2\<lparr>f_Aa_MM := 1\<rparr>) = None"
  by (simp add: Generation_Step1_def prenorm1_def pollen1_def pollen_raw1_def eggs1_def
      totalpollen1_def sum3_def limited_def PSatC_def selfing1_def self_Aas_def cdiv_def
      nonzero_def positive_def default_params_def zero1_def outcross1_def nonneg1_def
      Generation_Step2_def prenorm2_def pollen2_def pollen_raw2_def eggs2_def
      totalpollen2_def sum4_def zero2_def nonneg2_def)

text \<open>
  C6, amended. For non-negative genotype frequencies, h in [0,1], Q and ppY not negative,
  and PSatF not negative, F and S in [0,1], every division of one generation step has a
  strictly positive divisor: the step has a result under the check that admits only
  strictly positive divisors. A total pollen of 0 leaves the pollen pool at zeros, and
  a total plant frequency of 0 leaves the frequencies as they are, unnormalised.
\<close>

theorem divisors_positive:
  assumes "nonneg1 f" and "nonneg2 g"
    and "0 \<le> h p" and "h p \<le> 1" and "0 \<le> Q p" and "0 \<le> ppY p"
    and "0 \<le> PSatF p" and "0 \<le> F p" and "F p \<le> 1" and "0 \<le> S p" and "S p \<le> 1"
  shows "(\<exists>pool nxt f'. pollen1 positive p f = Some pool \<and> prenorm1 positive p f = Some nxt
            \<and> Generation_Step1 positive p f = Some f'
            \<and> (totalpollen1 p f = 0 \<longrightarrow> pool = (0, 0, 0))
            \<and> (total1 nxt = 0 \<longrightarrow> f' = nxt))
       \<and> (\<exists>pool nxt g'. pollen2 positive p g = Some pool \<and> prenorm2 positive p g = Some nxt
            \<and> Generation_Step2 positive p g = Some g'
            \<and> (totalpollen2 p g = 0 \<longrightarrow> pool = (0, 0, 0, 0))
            \<and> (total2 nxt = 0 \<longrightarrow> g' = nxt))"
proof -
  have y: "positive (1 + ppY p)" "1 + ppY p \<noteq> 0"
    using assms(6) by (simp_all add: positive_def)
  have raw1: "nonneg3 (pollen_raw1 p f)"
    using assms(1,3,4,5,6) by (rule pollen_raw1_nonneg)
  have tp1: "0 \<le> totalpollen1 p f"
    using assms(1,3,4,5,6) by (rule totalpollen1_nonneg)
  obtain pool where pool: "pollen1 positive p f = Some pool"
      "if totalpollen1 p f > 0 then sum3 pool = 1 else pool = pollen_raw1 p f"
    using pollen1_ex [OF lenient_positive] by blast
  have pz: "pool = (0, 0, 0)" if "totalpollen1 p f = 0"
    using pool(2) that raw1 by (simp add: nonneg3_sum_zero totalpollen1_def)
  obtain nxt f' where st: "prenorm1 positive p f = Some nxt"
      "Generation_Step1 positive p f = Some f'"
      "if total1 nxt > 0 then total1 f' = 1 else f' = nxt"
    using Generation_Step1_ex [OF lenient_positive tp1 y] by blast
  have A: "\<exists>pool nxt f'. pollen1 positive p f = Some pool \<and> prenorm1 positive p f = Some nxt
            \<and> Generation_Step1 positive p f = Some f'
            \<and> (totalpollen1 p f = 0 \<longrightarrow> pool = (0, 0, 0))
            \<and> (total1 nxt = 0 \<longrightarrow> f' = nxt)"
    using pool(1) st pz by auto
  have raw2: "nonneg4 (pollen_raw2 p g)"
    using assms(2,3,4,5) by (rule pollen_raw2_nonneg)
  have tp2: "0 \<le> totalpollen2 p g"
    using assms(2,3,4,5) by (rule totalpollen2_nonneg)
  obtain pool2 where pool2: "pollen2 positive p g = Some pool2"
      "if totalpollen2 p g > 0 then sum4 pool2 = 1 else pool2 = pollen_raw2 p g"
    using pollen2_ex [OF lenient_positive] by blast
  have pz2: "pool2 = (0, 0, 0, 0)" if "totalpollen2 p g = 0"
    using pool2(2) that raw2 by (simp add: nonneg4_sum_zero totalpollen2_def)
  obtain nxt2 g' where st2: "prenorm2 positive p g = Some nxt2"
      "Generation_Step2 positive p g = Some g'"
      "if total2 nxt2 > 0 then total2 g' = 1 else g' = nxt2"
    using Generation_Step2_ex [OF lenient_positive tp2] by blast
  have B: "\<exists>pool nxt g'. pollen2 positive p g = Some pool \<and> prenorm2 positive p g = Some nxt
            \<and> Generation_Step2 positive p g = Some g'
            \<and> (totalpollen2 p g = 0 \<longrightarrow> pool = (0, 0, 0, 0))
            \<and> (total2 nxt = 0 \<longrightarrow> g' = nxt)"
    using pool2(1) st2 pz2 by auto
  from A B show ?thesis by (rule conjI)
qed

theorem divisors_positive_witness:
  "nonneg1 (start1 False) \<and> nonneg2 (start2 False)
   \<and> 0 \<le> h default_params \<and> h default_params \<le> 1 \<and> 0 \<le> Q default_params
   \<and> 0 \<le> ppY default_params \<and> 0 \<le> PSatF default_params
   \<and> 0 \<le> F default_params \<and> F default_params \<le> 1
   \<and> 0 \<le> S default_params \<and> S default_params \<le> 1
   \<and> (\<exists>f'. Generation_Step1 positive default_params (start1 False) = Some f')
   \<and> (\<exists>g'. Generation_Step2 positive default_params (start2 False) = Some g')"
proof -
  have a: "0 \<le> h default_params" "h default_params \<le> 1" "0 \<le> Q default_params"
    "0 \<le> ppY default_params" "0 \<le> PSatF default_params"
    "0 \<le> F default_params" "F default_params \<le> 1"
    "0 \<le> S default_params" "S default_params \<le> 1"
    by (simp_all add: default_params_def)
  from divisors_positive [OF start_nonneg(1) start_nonneg(2) a] a start_nonneg
  show ?thesis by blast
qed

subsection \<open>Extinction\<close>

lemma pollen_raw1_zero: "pollen_raw1 p zero1 = (0, 0, 0)"
  by (simp add: pollen_raw1_def zero1_def)

lemma limited_zero: "lenient ok \<Longrightarrow> limited ok 0 0 T = Some 0"
  by (auto simp add: limited_def cdiv_def lenient_def)

lemma add1_zero: "add1 zero1 zero1 = zero1"
  by (simp add: add1_def zero1_def)

lemma Generation_Step1_zero:
  assumes okp: "lenient ok" and y: "ok (1 + ppY p)"
  shows "Generation_Step1 ok p zero1 = Some zero1"
proof -
  have tp: "totalpollen1 p zero1 = 0"
    by (simp add: totalpollen1_def pollen_raw1_zero sum3_def)
  have pol: "pollen1 ok p zero1 = Some (0, 0, 0)"
    by (simp add: pollen1_def pollen_raw1_zero)
  have f0: "f_AA zero1 = 0" "f_Aas zero1 = 0" "f_aas zero1 = 0" "f_asas zero1 = 0"
    by (simp_all add: zero1_def)
  have egg: "eggs1 ok p zero1 = Some (0, 0, 0)"
    by (simp add: eggs1_def Let_def tp f0 limited_zero [OF okp])
  have out: "outcross1 (0, 0, 0) (0, 0, 0) = zero1"
    by (simp add: outcross1_def zero1_def)
  have s3: "self_Aas ok p 0 = Some zero1"
    using y by (simp add: self_Aas_def cdiv_ok zero1_def)
  have s5: "self_aas p 0 = zero1" "self_asas p 0 = zero1"
    by (simp_all add: self_aas_def self_asas_def zero1_def)
  have self: "selfing1 ok p zero1 zero1 = Some zero1"
    by (simp add: selfing1_def f0 s3 s5 add1_zero)
  have yy: "yy_penalty1 p zero1 = zero1"
    by (simp add: yy_penalty1_def zero1_def)
  have pre: "prenorm1 ok p zero1 = Some zero1"
    by (simp add: prenorm1_def pol egg out self yy)
  have "normalise1 ok zero1 = Some zero1"
    by (simp add: normalise1_def total1_def zero1_def)
  with pre show ?thesis by (simp add: Generation_Step1_def)
qed

lemma pollen_raw2_zero: "pollen_raw2 p zero2 = (0, 0, 0, 0)"
  by (simp add: pollen_raw2_def zero2_def)

lemma add2_zero: "add2 zero2 zero2 = zero2"
  by (simp add: add2_def zero2_def)

lemma Generation_Step2_zero:
  assumes okp: "lenient ok"
  shows "Generation_Step2 ok p zero2 = Some zero2"
proof -
  have tp: "totalpollen2 p zero2 = 0"
    by (simp add: totalpollen2_def pollen_raw2_zero sum4_def)
  have pol: "pollen2 ok p zero2 = Some (0, 0, 0, 0)"
    by (simp add: pollen2_def pollen_raw2_zero)
  have f0: "f_AA_MM zero2 = 0" "f_AA_Mm zero2 = 0" "f_AA_mm zero2 = 0" "f_Aa_MM zero2 = 0"
    "f_Aa_Mm zero2 = 0" "f_aa_MM zero2 = 0" "f_aa_Mm zero2 = 0"
    by (simp_all add: zero2_def)
  have egg: "eggs2 ok p zero2 = Some (0, 0, 0, 0)"
    by (simp add: eggs2_def Let_def tp f0 limited_zero [OF okp])
  have out: "outcross2 (0, 0, 0, 0) (0, 0, 0, 0) = zero2"
    by (simp add: outcross2_def zero2_def)
  have s: "self_Aa_MM p 0 = zero2" "self_Aa_Mm p 0 = zero2" "self_aa_MM p 0 = zero2"
    "self_aa_Mm p 0 = zero2"
    by (simp_all add: self_Aa_MM_def self_Aa_Mm_def self_aa_MM_def self_aa_Mm_def zero2_def)
  have self: "selfing2 p zero2 zero2 = zero2"
    by (simp add: selfing2_def f0 s add2_zero)
  have yy: "yy_penalty2 p zero2 = zero2"
    by (simp add: yy_penalty2_def zero2_def)
  have pre: "prenorm2 ok p zero2 = Some zero2"
    by (simp add: prenorm2_def pol egg out self yy)
  have "normalise2 ok zero2 = Some zero2"
    by (simp add: normalise2_def total2_def zero2_def)
  with pre show ?thesis by (simp add: Generation_Step2_def)
qed

lemma iterate_fixed:
  assumes "body z = Some z"
  shows "iterate body endpoint n z = Some z"
proof (induction "nat (endpoint - n)" arbitrary: n)
  case 0
  then show ?case by (simp add: iterate.simps)
next
  case (Suc k)
  then have "n < endpoint" "k = nat (endpoint - (n + 1))" by simp_all
  with Suc.hyps(1) [of "n + 1"] assms show ?case
    by (subst iterate.simps) simp
qed

text \<open>
  C9, as stated, fails in Model A: with ppY = -1 the selfing block of Aa* divides by
  \<open>1 + ppY = 0\<close>, whatever the frequencies are, so the step from the all-zero vector
  has no result.
\<close>

theorem zero_fixed_point_counterexample:
  "Generation_Step1 nonzero (default_params\<lparr>ppY := -1\<rparr>) zero1 = None"
  by (simp add: Generation_Step1_def prenorm1_def pollen1_def pollen_raw1_def eggs1_def
      totalpollen1_def sum3_def limited_def PSatC_def selfing1_def self_Aas_def cdiv_def
      nonzero_def default_params_def zero1_def outcross1_def)

text \<open>
  C9, amended. In Model B, for every parameter setting, and in Model A, for every
  parameter setting with ppY different from -1, the all-zero vector is a fixed point of
  the generation step, no division by zero occurs, and the loop started from it ends in
  it for every iteration count.
\<close>

theorem zero_fixed_point:
  "Generation_Step2 nonzero p zero2 = Some zero2
   \<and> iterate (Generation_Step2 nonzero p) endpoint n zero2 = Some zero2
   \<and> (ppY p \<noteq> -1 \<longrightarrow>
        Generation_Step1 nonzero p zero1 = Some zero1
        \<and> iterate (Generation_Step1 nonzero p) endpoint n zero1 = Some zero1)"
proof -
  have B: "Generation_Step2 nonzero p zero2 = Some zero2"
    using lenient_nonzero by (rule Generation_Step2_zero)
  have A: "Generation_Step1 nonzero p zero1 = Some zero1" if "ppY p \<noteq> -1"
    using lenient_nonzero that by (intro Generation_Step1_zero) (simp_all add: nonzero_def)
  from A B show ?thesis by (simp add: iterate_fixed)
qed

theorem zero_fixed_point_witness:
  "ppY default_params \<noteq> -1
   \<and> Generation_Step2 nonzero default_params zero2 = Some zero2
   \<and> Generation_Step1 nonzero default_params zero1 = Some zero1
   \<and> iterate (Generation_Step1 nonzero default_params) 10000 0 zero1 = Some zero1"
proof -
  have a: "ppY default_params \<noteq> -1" by (simp add: default_params_def)
  from zero_fixed_point [of default_params 10000 0] a show ?thesis by blast
qed

subsection \<open>The simulation\<close>

text \<open>
  With the parameters in their ranges every generation step has a result with
  non-negative entries, so the simulation has a result for every iteration count.
\<close>

lemma generation_step_total1:
  assumes "nonneg1 f" and "param_ranges p"
  shows "\<exists>f'. Generation_Step1 nonzero p f = Some f' \<and> nonneg1 f'"
proof -
  have pr: "0 \<le> h p" "h p \<le> 1" "0 \<le> Q p" "0 \<le> ppY p"
    using assms(2) by (simp_all add: param_ranges_def)
  have y: "nonzero (1 + ppY p)" "1 + ppY p \<noteq> 0"
    using pr(4) by (simp_all add: nonzero_def)
  have "0 \<le> totalpollen1 p f"
    using assms(1) pr by (rule totalpollen1_nonneg)
  from Generation_Step1_ex [OF lenient_nonzero this y] assms show ?thesis by blast
qed

lemma generation_step_total2:
  assumes "nonneg2 f" and "param_ranges p"
  shows "\<exists>f'. Generation_Step2 nonzero p f = Some f' \<and> nonneg2 f'"
proof -
  have pr: "0 \<le> h p" "h p \<le> 1" "0 \<le> Q p"
    using assms(2) by (simp_all add: param_ranges_def)
  have "0 \<le> totalpollen2 p f"
    using assms(1) pr by (rule totalpollen2_nonneg)
  from Generation_Step2_ex [OF lenient_nonzero this] assms show ?thesis by blast
qed

lemma iterate_invariant:
  "(\<And>x. I x \<Longrightarrow> \<exists>y. body x = Some y \<and> I y) \<Longrightarrow> I f
     \<Longrightarrow> \<exists>r. iterate body endpoint n f = Some r \<and> I r"
proof (induction body endpoint n f rule: iterate.induct)
  case (1 body endpoint n f)
  show ?case
  proof (cases "n < endpoint")
    case True
    from "1.prems"(1) [OF "1.prems"(2)] obtain y where y: "body f = Some y" "I y" by blast
    from "1.IH" [OF True y(1) "1.prems"(1) y(2)] y(1) True show ?thesis
      by (subst iterate.simps) simp
  next
    case False
    with "1.prems"(2) show ?thesis by (subst iterate.simps) simp
  qed
qed

lemma simulate_defined:
  assumes "param_ranges p"
  shows "\<exists>r. simulate1 nonzero p pgd endpoint = Some r \<and> nonneg1 r"
    and "\<exists>r. simulate2 nonzero p pgd endpoint = Some r \<and> nonneg2 r"
proof -
  have 1: "\<exists>y. Generation_Step1 nonzero p x = Some y \<and> nonneg1 y" if "nonneg1 x" for x
    using generation_step_total1 [OF that assms] by blast
  have 2: "\<exists>y. Generation_Step2 nonzero p x = Some y \<and> nonneg2 y" if "nonneg2 x" for x
    using generation_step_total2 [OF that assms] by blast
  show "\<exists>r. simulate1 nonzero p pgd endpoint = Some r \<and> nonneg1 r"
    unfolding simulate1_def using 1 start_nonneg(1) by (rule iterate_invariant)
  show "\<exists>r. simulate2 nonzero p pgd endpoint = Some r \<and> nonneg2 r"
    unfolding simulate2_def using 2 start_nonneg(2) by (rule iterate_invariant)
qed

text \<open>
  Each group of assignments computes, on the variables it writes, what the corresponding
  function computes from the frequencies, whatever the other variables hold.
\<close>

lemma cur1_sel [simp]:
  "f_AA (cur1 s) = f_AA s" "f_Aa (cur1 s) = f_Aa s" "f_Aas (cur1 s) = f_Aas s"
  "f_aa (cur1 s) = f_aa s" "f_aas (cur1 s) = f_aas s" "f_asas (cur1 s) = f_asas s"
  by (simp_all add: cur1_def freqs1.truncate_def)

lemma pollen_sums_stmts1_obs:
  "(p_A (pollen_sums_stmts1 p s), p_a (pollen_sums_stmts1 p s), p_as (pollen_sums_stmts1 p s))
     = pollen_raw1 p (cur1 s)"
  "cur1 (pollen_sums_stmts1 p s) = cur1 s"
  by (simp_all add: pollen_sums_stmts1_def pollen_raw1_def Let_def cur1_def freqs1.truncate_def)

lemma pollen_norm_stmts1_obs:
  assumes "(p_A s, p_a s, p_as s) = pollen_raw1 p (cur1 s)"
  shows "map_option (\<lambda>s'. (cur1 s', totalpollen_v1 s', (p_A s', p_a s', p_as s')))
             (pollen_norm_stmts1 ok s)
           = map_option (\<lambda>pol. (cur1 s, totalpollen1 p (cur1 s), pol)) (pollen1 ok p (cur1 s))"
  using assms [symmetric]
  by (simp add: pollen_norm_stmts1_def pollen1_def totalpollen1_def sum3_def Let_def cdiv_def
      cur1_def freqs1.truncate_def)

lemma egg_stmts1_obs:
  assumes "totalpollen_v1 s = totalpollen1 p (cur1 s)"
  shows "map_option (\<lambda>s'. (cur1 s', (p_A s', p_a s', p_as s'), (e_A s', e_a s', e_as s')))
             (egg_stmts1 ok p s)
           = map_option (\<lambda>egg. (cur1 s, (p_A s, p_a s, p_as s), egg)) (eggs1 ok p (cur1 s))"
  using assms [symmetric]
  by (simp add: egg_stmts1_def eggs1_def limited_def PSatC_def Let_def cdiv_def
      cur1_def freqs1.truncate_def)

lemma outcross_stmts1_obs:
  "nxt1 (outcross_stmts1 s) = outcross1 (p_A s, p_a s, p_as s) (e_A s, e_a s, e_as s)"
  "cur1 (outcross_stmts1 s) = cur1 s"
  by (simp_all add: outcross_stmts1_def outcross1_def nxt1_def Let_def cur1_def freqs1.truncate_def)

lemma selfing_stmts1_obs:
  "map_option (\<lambda>s'. (cur1 s', nxt1 s')) (selfing_stmts1 ok p s)
     = map_option (\<lambda>r. (cur1 s, r)) (selfing1 ok p (cur1 s) (nxt1 s))"
  by (simp add: selfing_stmts1_def selfing1_def self_Aas_def self_aas_def self_asas_def add1_def
      nxt1_def Let_def cdiv_def cur1_def freqs1.truncate_def)

lemma penalty_copy_stmts1_obs:
  "cur1 (copy_stmts1 (penalty_stmts1 p s)) = yy_penalty1 p (nxt1 s)"
  by (simp add: copy_stmts1_def penalty_stmts1_def yy_penalty1_def nxt1_def Let_def cur1_def
      freqs1.truncate_def)

lemma normalise_stmts1_obs:
  "map_option cur1 (normalise_stmts1 ok s) = normalise1 ok (cur1 s)"
  by (simp add: normalise_stmts1_def normalise1_def total1_def Let_def cdiv_def cur1_def
      freqs1.truncate_def)

lemma body_stmts1_refines:
  "map_option cur1 (body_stmts1 ok p s) = Generation_Step1 ok p (cur1 s)"
proof -
  define f where "f = cur1 s"
  define s1 where "s1 = pollen_sums_stmts1 p s"
  have c1: "cur1 s1 = f"
    by (simp add: s1_def f_def pollen_sums_stmts1_obs(2))
  have r1: "(p_A s1, p_a s1, p_as s1) = pollen_raw1 p (cur1 s1)"
    by (simp add: s1_def pollen_sums_stmts1_obs)
  note n = pollen_norm_stmts1_obs [OF r1, of ok, unfolded c1]
  show ?thesis
  proof (cases "pollen1 ok p f")
    case None
    with n have "pollen_norm_stmts1 ok s1 = None" by simp
    with None show ?thesis
      by (simp add: body_stmts1_def Generation_Step1_def prenorm1_def Let_def
          s1_def [symmetric] f_def [symmetric])
  next
    case (Some pol)
    with n obtain s2 where s2: "pollen_norm_stmts1 ok s1 = Some s2" "cur1 s2 = f"
        "totalpollen_v1 s2 = totalpollen1 p f" "(p_A s2, p_a s2, p_as s2) = pol"
      by (cases "pollen_norm_stmts1 ok s1") auto
    have "totalpollen_v1 s2 = totalpollen1 p (cur1 s2)" by (simp add: s2)
    note e = egg_stmts1_obs [OF this, of ok, unfolded s2(2) s2(4)]
    show ?thesis
    proof (cases "eggs1 ok p f")
      case None
      with e have "egg_stmts1 ok p s2 = None" by simp
      with None Some s2(1) show ?thesis
        by (simp add: body_stmts1_def Generation_Step1_def prenorm1_def Let_def
            s1_def [symmetric] f_def [symmetric])
    next
      case egg: (Some egg)
      with e obtain s3 where s3: "egg_stmts1 ok p s2 = Some s3" "cur1 s3 = f"
          "(p_A s3, p_a s3, p_as s3) = pol" "(e_A s3, e_a s3, e_as s3) = egg"
        by (cases "egg_stmts1 ok p s2") auto
      define s4 where "s4 = outcross_stmts1 s3"
      have s4: "nxt1 s4 = outcross1 pol egg" "cur1 s4 = f"
        by (simp_all add: s4_def outcross_stmts1_obs s3)
      note sf = selfing_stmts1_obs [of ok p s4, unfolded s4]
      show ?thesis
      proof (cases "selfing1 ok p f (outcross1 pol egg)")
        case None
        with sf have "selfing_stmts1 ok p s4 = None" by simp
        with None Some egg s2(1) s3(1) show ?thesis
          by (simp add: body_stmts1_def Generation_Step1_def prenorm1_def Let_def
              s1_def [symmetric] s4_def [symmetric] f_def [symmetric])
      next
        case r: (Some r)
        with sf obtain s5 where s5: "selfing_stmts1 ok p s4 = Some s5" "nxt1 s5 = r"
          by (cases "selfing_stmts1 ok p s4") auto
        have "map_option cur1 (normalise_stmts1 ok (copy_stmts1 (penalty_stmts1 p s5)))
                = normalise1 ok (yy_penalty1 p r)"
          by (simp add: normalise_stmts1_obs penalty_copy_stmts1_obs s5(2))
        with r Some egg s2(1) s3(1) s5(1) show ?thesis
          by (simp add: body_stmts1_def Generation_Step1_def prenorm1_def Let_def
              s1_def [symmetric] s4_def [symmetric] f_def [symmetric])
      qed
    qed
  qed
qed

lemma iterate_refines:
  "(\<And>s. map_option obs (body s) = fbody (obs s))
     \<Longrightarrow> map_option obs (iterate body endpoint n s) = iterate fbody endpoint n (obs s)"
proof (induction body endpoint n s rule: iterate.induct)
  case (1 body endpoint n s)
  show ?case
  proof (cases "n < endpoint")
    case True
    show ?thesis
    proof (cases "body s")
      case None
      with "1.prems" [of s] have "fbody (obs s) = None" by simp
      with None True show ?thesis
        by (simp add: iterate.simps [of body endpoint n] iterate.simps [of fbody endpoint n])
    next
      case (Some s')
      with "1.prems" [of s] have "fbody (obs s) = Some (obs s')" by simp
      with Some True "1.IH" [OF True Some "1.prems"] show ?thesis
        by (simp add: iterate.simps [of body endpoint n] iterate.simps [of fbody endpoint n])
    qed
  next
    case False
    then show ?thesis
      by (simp add: iterate.simps [of body endpoint n] iterate.simps [of fbody endpoint n])
  qed
qed

lemma start_stmts1_obs: "cur1 (start_stmts1 pgd s) = start1 pgd"
  by (simp add: start_stmts1_def start1_def Let_def cur1_def freqs1.truncate_def)

lemma cell_stmts1_refines:
  "map_option (\<lambda>(s', c). (cur1 s', c)) (cell_stmts1 ok p pgd endpoint threshold s)
     = map_option (\<lambda>r. (r, classify1 threshold r)) (simulate1 ok p pgd endpoint)"
proof -
  have "map_option cur1 (iterate (body_stmts1 ok p) endpoint 0 (start_stmts1 pgd s))
          = iterate (Generation_Step1 ok p) endpoint 0 (cur1 (start_stmts1 pgd s))"
    by (rule iterate_refines) (rule body_stmts1_refines)
  then have it: "map_option cur1 (iterate (body_stmts1 ok p) endpoint 0 (start_stmts1 pgd s))
              = simulate1 ok p pgd endpoint"
    by (simp add: simulate1_def start_stmts1_obs)
  show ?thesis
  proof (cases "iterate (body_stmts1 ok p) endpoint 0 (start_stmts1 pgd s)")
    case None
    with it show ?thesis by (simp add: cell_stmts1_def Let_def)
  next
    case (Some s')
    with it have "simulate1 ok p pgd endpoint = Some (cur1 s')" by simp
    with Some show ?thesis
      by (simp add: cell_stmts1_def Let_def classify1_def female1_def male1_def inconstant1_def
          cur1_def freqs1.truncate_def)
  qed
qed

lemma cur2_sel [simp]:
  "f_AA_MM (cur2 s) = f_AA_MM s" "f_AA_Mm (cur2 s) = f_AA_Mm s" "f_AA_mm (cur2 s) = f_AA_mm s"
  "f_Aa_MM (cur2 s) = f_Aa_MM s" "f_Aa_Mm (cur2 s) = f_Aa_Mm s" "f_Aa_mm (cur2 s) = f_Aa_mm s"
  "f_aa_MM (cur2 s) = f_aa_MM s" "f_aa_Mm (cur2 s) = f_aa_Mm s" "f_aa_mm (cur2 s) = f_aa_mm s"
  by (simp_all add: cur2_def freqs2.truncate_def)

lemma pollen_sums_stmts2_obs:
  "(p_A_M (pollen_sums_stmts2 p s), p_A_m (pollen_sums_stmts2 p s),
    p_a_M (pollen_sums_stmts2 p s), p_a_m (pollen_sums_stmts2 p s))
     = pollen_raw2 p (cur2 s)"
  "cur2 (pollen_sums_stmts2 p s) = cur2 s"
  by (simp_all add: pollen_sums_stmts2_def pollen_raw2_def Let_def cur2_def freqs2.truncate_def)

lemma pollen_norm_stmts2_obs:
  assumes "(p_A_M s, p_A_m s, p_a_M s, p_a_m s) = pollen_raw2 p (cur2 s)"
  shows "map_option (\<lambda>s'. (cur2 s', totalpollen_v2 s', (p_A_M s', p_A_m s', p_a_M s', p_a_m s')))
             (pollen_norm_stmts2 ok s)
           = map_option (\<lambda>pol. (cur2 s, totalpollen2 p (cur2 s), pol)) (pollen2 ok p (cur2 s))"
  using assms [symmetric]
  by (simp add: pollen_norm_stmts2_def pollen2_def totalpollen2_def sum4_def Let_def cdiv_def
      cur2_def freqs2.truncate_def)

lemma egg_stmts2_obs:
  assumes "totalpollen_v2 s = totalpollen2 p (cur2 s)"
  shows "map_option (\<lambda>s'. (cur2 s', (p_A_M s', p_A_m s', p_a_M s', p_a_m s'),
                            (e_A_M s', e_A_m s', e_a_M s', e_a_m s')))
             (egg_stmts2 ok p s)
           = map_option (\<lambda>egg. (cur2 s, (p_A_M s, p_A_m s, p_a_M s, p_a_m s), egg))
               (eggs2 ok p (cur2 s))"
  using assms [symmetric]
  by (simp add: egg_stmts2_def eggs2_def limited_def PSatC_def Let_def cdiv_def
      cur2_def freqs2.truncate_def)

lemma outcross_stmts2_obs:
  "nxt2 (outcross_stmts2 s)
     = outcross2 (p_A_M s, p_A_m s, p_a_M s, p_a_m s) (e_A_M s, e_A_m s, e_a_M s, e_a_m s)"
  "cur2 (outcross_stmts2 s) = cur2 s"
  by (simp_all add: outcross_stmts2_def outcross2_def nxt2_def Let_def cur2_def freqs2.truncate_def)

lemma selfing_stmts2_obs:
  "nxt2 (selfing_stmts2 p s) = selfing2 p (cur2 s) (nxt2 s)"
  "cur2 (selfing_stmts2 p s) = cur2 s"
  by (simp_all add: selfing_stmts2_def selfing2_def self_Aa_MM_def self_Aa_Mm_def self_aa_MM_def
      self_aa_Mm_def add2_def nxt2_def Let_def cur2_def freqs2.truncate_def)

lemma penalty_copy_stmts2_obs:
  "cur2 (copy_stmts2 (penalty_stmts2 p s)) = yy_penalty2 p (nxt2 s)"
  by (simp add: copy_stmts2_def penalty_stmts2_def yy_penalty2_def nxt2_def Let_def cur2_def
      freqs2.truncate_def)

lemma normalise_stmts2_obs:
  "map_option cur2 (normalise_stmts2 ok s) = normalise2 ok (cur2 s)"
  by (simp add: normalise_stmts2_def normalise2_def total2_def Let_def cdiv_def cur2_def
      freqs2.truncate_def)

lemma body_stmts2_refines:
  "map_option cur2 (body_stmts2 ok p s) = Generation_Step2 ok p (cur2 s)"
proof -
  define f where "f = cur2 s"
  define s1 where "s1 = pollen_sums_stmts2 p s"
  have c1: "cur2 s1 = f"
    by (simp add: s1_def f_def pollen_sums_stmts2_obs(2))
  have r1: "(p_A_M s1, p_A_m s1, p_a_M s1, p_a_m s1) = pollen_raw2 p (cur2 s1)"
    by (simp add: s1_def pollen_sums_stmts2_obs)
  note n = pollen_norm_stmts2_obs [OF r1, of ok, unfolded c1]
  show ?thesis
  proof (cases "pollen2 ok p f")
    case None
    with n have "pollen_norm_stmts2 ok s1 = None" by simp
    with None show ?thesis
      by (simp add: body_stmts2_def Generation_Step2_def prenorm2_def Let_def
          s1_def [symmetric] f_def [symmetric])
  next
    case (Some pol)
    with n obtain s2 where s2: "pollen_norm_stmts2 ok s1 = Some s2" "cur2 s2 = f"
        "totalpollen_v2 s2 = totalpollen2 p f" "(p_A_M s2, p_A_m s2, p_a_M s2, p_a_m s2) = pol"
      by (cases "pollen_norm_stmts2 ok s1") auto
    have "totalpollen_v2 s2 = totalpollen2 p (cur2 s2)" by (simp add: s2)
    note e = egg_stmts2_obs [OF this, of ok, unfolded s2(2) s2(4)]
    show ?thesis
    proof (cases "eggs2 ok p f")
      case None
      with e have "egg_stmts2 ok p s2 = None" by simp
      with None Some s2(1) show ?thesis
        by (simp add: body_stmts2_def Generation_Step2_def prenorm2_def Let_def
            s1_def [symmetric] f_def [symmetric])
    next
      case egg: (Some egg)
      with e obtain s3 where s3: "egg_stmts2 ok p s2 = Some s3" "cur2 s3 = f"
          "(p_A_M s3, p_A_m s3, p_a_M s3, p_a_m s3) = pol"
          "(e_A_M s3, e_A_m s3, e_a_M s3, e_a_m s3) = egg"
        by (cases "egg_stmts2 ok p s2") auto
      define s5 where "s5 = selfing_stmts2 p (outcross_stmts2 s3)"
      have s5: "nxt2 s5 = selfing2 p f (outcross2 pol egg)"
        by (simp add: s5_def selfing_stmts2_obs outcross_stmts2_obs s3)
      have "map_option cur2 (normalise_stmts2 ok (copy_stmts2 (penalty_stmts2 p s5)))
              = normalise2 ok (yy_penalty2 p (selfing2 p f (outcross2 pol egg)))"
        by (simp add: normalise_stmts2_obs penalty_copy_stmts2_obs s5)
      with Some egg s2(1) s3(1) show ?thesis
        by (simp add: body_stmts2_def Generation_Step2_def prenorm2_def Let_def
            s1_def [symmetric] s5_def [symmetric] f_def [symmetric])
    qed
  qed
qed

lemma start_stmts2_obs: "cur2 (start_stmts2 pgd s) = start2 pgd"
  by (simp add: start_stmts2_def start2_def Let_def cur2_def freqs2.truncate_def)

lemma cell_stmts2_refines:
  "map_option (\<lambda>(s', c). (cur2 s', c)) (cell_stmts2 ok p pgd endpoint threshold s)
     = map_option (\<lambda>r. (r, classify2 threshold r)) (simulate2 ok p pgd endpoint)"
proof -
  have "map_option cur2 (iterate (body_stmts2 ok p) endpoint 0 (start_stmts2 pgd s))
          = iterate (Generation_Step2 ok p) endpoint 0 (cur2 (start_stmts2 pgd s))"
    by (rule iterate_refines) (rule body_stmts2_refines)
  then have it: "map_option cur2 (iterate (body_stmts2 ok p) endpoint 0 (start_stmts2 pgd s))
              = simulate2 ok p pgd endpoint"
    by (simp add: simulate2_def start_stmts2_obs)
  show ?thesis
  proof (cases "iterate (body_stmts2 ok p) endpoint 0 (start_stmts2 pgd s)")
    case None
    with it show ?thesis by (simp add: cell_stmts2_def Let_def)
  next
    case (Some s')
    with it have "simulate2 ok p pgd endpoint = Some (cur2 s')" by simp
    with Some show ?thesis
      by (simp add: cell_stmts2_def Let_def classify2_def female2_def male2_def inconstant2_def
          cur2_def freqs2.truncate_def)
  qed
qed

lemma cell_stmts_defined:
  assumes "param_ranges p"
  shows "\<exists>s' c. cell_stmts1 nonzero p pgd endpoint threshold s = Some (s', c)"
    and "\<exists>t' c. cell_stmts2 nonzero p pgd endpoint threshold t = Some (t', c)"
proof -
  from simulate_defined(1) [OF assms, of pgd endpoint]
  have "map_option (\<lambda>(s', c). (cur1 s', c)) (cell_stmts1 nonzero p pgd endpoint threshold s) \<noteq> None"
    by (auto simp add: cell_stmts1_refines)
  then show "\<exists>s' c. cell_stmts1 nonzero p pgd endpoint threshold s = Some (s', c)"
    by (cases "cell_stmts1 nonzero p pgd endpoint threshold s") auto
  from simulate_defined(2) [OF assms, of pgd endpoint]
  have "map_option (\<lambda>(s', c). (cur2 s', c)) (cell_stmts2 nonzero p pgd endpoint threshold t) \<noteq> None"
    by (auto simp add: cell_stmts2_refines)
  then show "\<exists>t' c. cell_stmts2 nonzero p pgd endpoint threshold t = Some (t', c)"
    by (cases "cell_stmts2 nonzero p pgd endpoint threshold t") auto
qed

lemma simulate_default_once:
  "simulate1 nonzero default_params False 1 =
     Some \<lparr>f_AA = 999 / 2000, f_Aa = 166167 / 334000, f_Aas = 833 / 334000,
           f_aa = 0, f_aas = 499 / 1002000, f_asas = 1 / 501000\<rparr>"
  "simulate2 nonzero default_params False 1 =
     Some \<lparr>f_AA_MM = 1 / 2004000, f_AA_Mm = 2497 / 2004000, f_AA_mm = 1997 / 4008,
           f_Aa_MM = 1 / 1002000, f_Aa_Mm = 1499 / 1002000, f_Aa_mm = 333 / 668,
           f_aa_MM = 1 / 2004000, f_aa_Mm = 1 / 4000, f_aa_mm = 1 / 4008\<rparr>"
  by (simp_all add: simulate1_def simulate2_def iterate.simps [of _ 1 0] iterate.simps [of _ 1 1]
      step1_default step2_default)

lemma cell_default_once:
  "map_option (\<lambda>(s', c). (cur1 s', c)) (cell_stmts1 nonzero default_params False 1 0.01 (garbage1 0))
     = Some (\<lparr>f_AA = 999 / 2000, f_Aa = 166167 / 334000, f_Aas = 833 / 334000,
           f_aa = 0, f_aas = 499 / 1002000, f_asas = 1 / 501000\<rparr>, DIO)"
  "map_option (\<lambda>(t', c). (cur2 t', c)) (cell_stmts2 nonzero default_params False 1 0.01 (garbage2 0))
     = Some (\<lparr>f_AA_MM = 1 / 2004000, f_AA_Mm = 2497 / 2004000, f_AA_mm = 1997 / 4008,
           f_Aa_MM = 1 / 1002000, f_Aa_Mm = 1499 / 1002000, f_Aa_mm = 333 / 668,
           f_aa_MM = 1 / 2004000, f_aa_Mm = 1 / 4000, f_aa_mm = 1 / 4008\<rparr>, DIO)"
  by (simp_all add: cell_stmts1_refines cell_stmts2_refines simulate_default_once
      classify1_def classify2_def classify_def female1_def male1_def inconstant1_def
      female2_def male2_def inconstant2_def)

text \<open>
  C7. Two runs of the simulation with the same parameters, start mode, iteration count
  and threshold end with the same frequencies and the same category, whatever the
  variables of the program hold when each run starts (uninitialised memory, or the
  values the previous grid cell left behind): every variable is written before it is
  read. With the parameters in their ranges both runs do produce a result. This holds
  for both models.
\<close>

theorem simulation_reproducible:
  "map_option (\<lambda>(s', c). (cur1 s', c)) (cell_stmts1 nonzero p pgd endpoint threshold s1)
     = map_option (\<lambda>(s', c). (cur1 s', c)) (cell_stmts1 nonzero p pgd endpoint threshold s2)
   \<and> map_option (\<lambda>(t', c). (cur2 t', c)) (cell_stmts2 nonzero p pgd endpoint threshold t1)
     = map_option (\<lambda>(t', c). (cur2 t', c)) (cell_stmts2 nonzero p pgd endpoint threshold t2)
   \<and> (param_ranges p \<longrightarrow>
        (\<exists>s' c. cell_stmts1 nonzero p pgd endpoint threshold s1 = Some (s', c))
        \<and> (\<exists>t' c. cell_stmts2 nonzero p pgd endpoint threshold t1 = Some (t', c)))"
  by (simp add: cell_stmts1_refines cell_stmts2_refines cell_stmts_defined)

theorem simulation_reproducible_witness:
  "param_ranges default_params
   \<and> map_option (\<lambda>(s', c). (cur1 s', c)) (cell_stmts1 nonzero default_params False 1 0.01 (garbage1 7))
     = Some (\<lparr>f_AA = 999 / 2000, f_Aa = 166167 / 334000, f_Aas = 833 / 334000,
           f_aa = 0, f_aas = 499 / 1002000, f_asas = 1 / 501000\<rparr>, DIO)
   \<and> map_option (\<lambda>(t', c). (cur2 t', c)) (cell_stmts2 nonzero default_params False 1 0.01 (garbage2 7))
     = Some (\<lparr>f_AA_MM = 1 / 2004000, f_AA_Mm = 2497 / 2004000, f_AA_mm = 1997 / 4008,
           f_Aa_MM = 1 / 1002000, f_Aa_Mm = 1499 / 1002000, f_Aa_mm = 333 / 668,
           f_aa_MM = 1 / 2004000, f_aa_Mm = 1 / 4000, f_aa_mm = 1 / 4008\<rparr>, DIO)
   \<and> (\<exists>s' c. cell_stmts1 nonzero default_params False 1 0.01 (garbage1 7) = Some (s', c))
   \<and> (\<exists>t' c. cell_stmts2 nonzero default_params False 1 0.01 (garbage2 7) = Some (t', c))"
  using simulation_reproducible [of default_params False 1 "0.01" "garbage1 7" "garbage1 0"
      "garbage2 7" "garbage2 0"]
    cell_default_once default_params_ranges
  by simp

subsection \<open>The classifier\<close>

text \<open>
  C4. For all aggregates and every threshold the classifier returns the first matching
  case of the priority order SSD, DIO, PGD, PAD, INC, and none if no case matches; every
  comparison is strict.
\<close>

theorem classify_first_match:
  "classify threshold female male inconstant
     = first_match (priority_cases threshold female male inconstant)"
  by (simp add: classify_def priority_cases_def)

text \<open>
  C3, as stated, fails. With h = 0 and ppY = 0 all viable pollen carries A and no
  inconstant sets seed, so one generation from the dioecious start leaves females only
  (AA at frequency 1). With threshold 0 this final vector, whose female aggregate is 1,
  is classified as none.
\<close>

theorem classify_zero_threshold_female_only:
  "simulate1 nonzero (default_params\<lparr>h := 0, ppY := 0\<rparr>) False 1 =
     Some \<lparr>f_AA = 1, f_Aa = 0, f_Aas = 0, f_aa = 0, f_aas = 0, f_asas = 0\<rparr>
   \<and> aggregates1 \<lparr>f_AA = 1, f_Aa = 0, f_Aas = 0, f_aa = 0, f_aas = 0, f_asas = 0\<rparr> = (1, 0, 0)
   \<and> classify 0 1 0 0 = Undetermined
   \<and> cell1 nonzero (default_params\<lparr>h := 0, ppY := 0\<rparr>) False 1 0 = Some Undetermined"
  by (simp add: cell1_def simulate1_def iterate.simps [of _ 1 0] iterate.simps [of _ 1 1]
      step1_females aggregates1_def classify1_def classify_def female1_def male1_def
      inconstant1_def)

text \<open>
  C3, amended. With threshold 0 the classifier returns none exactly when the inconstant
  aggregate is not strictly positive and the female and male aggregates are not both
  strictly positive. So a category among SSD, DIO, PGD, PAD, INC is returned whenever
  the inconstant aggregate, or both the female and the male aggregate, are strictly
  positive; females alone or males alone are classified as none.
\<close>

theorem classify_zero_threshold:
  "classify 0 female male inconstant = Undetermined
     \<longleftrightarrow> \<not> inconstant > 0 \<and> \<not> (female > 0 \<and> male > 0)"
  by (auto simp add: classify_def)

theorem classify_zero_threshold_witness:
  "classify 0 0 (1/2) (1/2) \<noteq> Undetermined \<and> classify 0 (1/2) (1/2) 0 \<noteq> Undetermined
   \<and> classify 0 0 1 0 = Undetermined"
  using classify_zero_threshold [of 0 "1/2" "1/2"] classify_zero_threshold [of "1/2" "1/2" 0]
    classify_zero_threshold [of 0 1 0]
  by simp

subsection \<open>Aggregation\<close>

text \<open>
  After a generation step from non-negative frequencies with the parameters in their
  ranges, the aggregates sum to 1 unless the population is extinct.
\<close>

lemma aggregates_total:
  "female1 f + male1 f + inconstant1 f = total1 f"
  "female2 g + male2 g + inconstant2 g = total2 g"
  by (simp_all add: total1_def female1_def male1_def inconstant1_def
      total2_def female2_def male2_def inconstant2_def)

lemma aggregates_after_step1:
  assumes "nonneg1 f" and "param_ranges p" and "Generation_Step1 nonzero p f = Some f'"
  shows "female1 f' + male1 f' + inconstant1 f' = 1 \<or> f' = zero1"
proof -
  have pr: "0 \<le> h p" "h p \<le> 1" "0 \<le> Q p" "0 \<le> ppY p"
    using assms(2) by (simp_all add: param_ranges_def)
  have y: "nonzero (1 + ppY p)" "1 + ppY p \<noteq> 0"
    using pr(4) by (simp_all add: nonzero_def)
  have "0 \<le> totalpollen1 p f"
    using assms(1) pr by (rule totalpollen1_nonneg)
  from Generation_Step1_ex [OF lenient_nonzero this y] assms
  have "total1 f' = 1 \<or> f' = zero1" by (auto split: if_splits)
  then show ?thesis
    by (simp only: aggregates_total)
qed

lemma aggregates_after_step2:
  assumes "nonneg2 f" and "param_ranges p" and "Generation_Step2 nonzero p f = Some f'"
  shows "female2 f' + male2 f' + inconstant2 f' = 1 \<or> f' = zero2"
proof -
  have pr: "0 \<le> h p" "h p \<le> 1" "0 \<le> Q p"
    using assms(2) by (simp_all add: param_ranges_def)
  have "0 \<le> totalpollen2 p f"
    using assms(1) pr by (rule totalpollen2_nonneg)
  from Generation_Step2_ex [OF lenient_nonzero this] assms
  have "total2 f' = 1 \<or> f' = zero2" by (auto split: if_splits)
  then show ?thesis
    by (simp only: aggregates_total)
qed

text \<open>
  C10. In both models the three aggregates add up to the sum of all genotype frequencies,
  and every genotype is counted in exactly one aggregate: a vector with a single genotype
  at frequency x has x in one aggregate and 0 in the other two.
\<close>

theorem aggregates_partition:
  "female1 f + male1 f + inconstant1 f = total1 f
   \<and> female2 g + male2 g + inconstant2 g = total2 g
   \<and> aggregates1 (zero1\<lparr>f_AA := x\<rparr>) = (x, 0, 0)
   \<and> aggregates1 (zero1\<lparr>f_Aa := x\<rparr>) = (0, x, 0)
   \<and> aggregates1 (zero1\<lparr>f_Aas := x\<rparr>) = (0, 0, x)
   \<and> aggregates1 (zero1\<lparr>f_aa := x\<rparr>) = (0, x, 0)
   \<and> aggregates1 (zero1\<lparr>f_aas := x\<rparr>) = (0, 0, x)
   \<and> aggregates1 (zero1\<lparr>f_asas := x\<rparr>) = (0, 0, x)
   \<and> aggregates2 (zero2\<lparr>f_AA_MM := x\<rparr>) = (x, 0, 0)
   \<and> aggregates2 (zero2\<lparr>f_AA_Mm := x\<rparr>) = (x, 0, 0)
   \<and> aggregates2 (zero2\<lparr>f_AA_mm := x\<rparr>) = (x, 0, 0)
   \<and> aggregates2 (zero2\<lparr>f_Aa_MM := x\<rparr>) = (0, 0, x)
   \<and> aggregates2 (zero2\<lparr>f_Aa_Mm := x\<rparr>) = (0, 0, x)
   \<and> aggregates2 (zero2\<lparr>f_Aa_mm := x\<rparr>) = (0, x, 0)
   \<and> aggregates2 (zero2\<lparr>f_aa_MM := x\<rparr>) = (0, 0, x)
   \<and> aggregates2 (zero2\<lparr>f_aa_Mm := x\<rparr>) = (0, 0, x)
   \<and> aggregates2 (zero2\<lparr>f_aa_mm := x\<rparr>) = (0, x, 0)"
  by (simp add: aggregates1_def aggregates2_def female1_def male1_def inconstant1_def total1_def
      female2_def male2_def inconstant2_def total2_def zero1_def zero2_def)

subsection \<open>The K, k parameterisation\<close>

text \<open>
  C8. For K and k not negative, Q = 1/(1+K) and F = 1/(1+k) are defined and lie in (0, 1],
  and converting them back by 1/Q - 1 and 1/F - 1 gives K and k again: exactly, in the
  exact arithmetic of this model.
\<close>

theorem K_roundtrip:
  assumes "0 \<le> K" and "0 \<le> k"
  shows "\<exists>Q' F'. Q_of_K nonzero K = Some Q' \<and> F_of_k nonzero k = Some F'
           \<and> 0 < Q' \<and> Q' \<le> 1 \<and> 0 < F' \<and> F' \<le> 1
           \<and> K_of_Q nonzero Q' = Some K \<and> k_of_F nonzero F' = Some k"
  using assms
  by (simp add: Q_of_K_def F_of_k_def K_of_Q_def k_of_F_def cdiv_def nonzero_def)

theorem K_roundtrip_witness:
  "(0::real) \<le> 4 \<and> (0::real) \<le> 0
   \<and> (\<exists>Q' F'. Q_of_K nonzero 4 = Some Q' \<and> F_of_k nonzero 0 = Some F'
           \<and> 0 < Q' \<and> Q' \<le> 1 \<and> 0 < F' \<and> F' \<le> 1
           \<and> K_of_Q nonzero Q' = Some 4 \<and> k_of_F nonzero F' = Some 0)"
  using K_roundtrip [of 4 0] by simp

end
